theory Spec2Isabelle
  imports Complex_Main
begin

section \<open>JavaScript values\<close>

text \<open>
  The server (\<^verbatim>\<open>api/src/index.js\<close>, here \<^verbatim>\<open>src/unnamed/part_000\<close>) and the minimal
  ingester (\<^verbatim>\<open>src/index.js\<close>) work on the values \<^verbatim>\<open>JSON.parse\<close> returns. A number is an
  IEEE double: a finite value (read as the real it denotes), \<^verbatim>\<open>NaN\<close> or an infinity
  (\<^verbatim>\<open>JSON.parse("1e999")\<close> is \<^verbatim>\<open>Infinity\<close>). \<^verbatim>\<open>undefined\<close> is \<open>None\<close> of \<open>json option\<close>.
\<close>

datatype jsnum = NaN | PosInf | NegInf | Fin real

datatype json =
    JNull
  | JBool bool
  | JNum jsnum
  | JStr string
  | JArr "json list"
  | JObj "(string \<times> json) list"

text \<open>A thrown value: an \<^verbatim>\<open>Error\<close> object with its \<^verbatim>\<open>name\<close> and \<^verbatim>\<open>message\<close>.\<close>

datatype error = Exn string string

fun message :: "error \<Rightarrow> string" where
  "message (Exn n m) = m"

text \<open>\<^verbatim>\<open>String(e)\<close> of an error object (\<^verbatim>\<open>Error.prototype.toString\<close>).\<close>

fun error_String :: "error \<Rightarrow> string" where
  "error_String (Exn n m) = (if n = [] then m else if m = [] then n else n @ '': '' @ m)"

text \<open>
  The built-in functions whose definition is the engine's and not the repository's are
  parameters of the model: every theorem below holds for each choice of them.
\<close>

record builtins =
  StringToNumber :: "string \<Rightarrow> jsnum"
  NumberToString :: "jsnum \<Rightarrow> string"
  parseFloat :: "string \<Rightarrow> jsnum"
  Date_parse :: "string \<Rightarrow> jsnum"
  JSON_parse :: "string \<Rightarrow> error + json"
  JSON_stringify :: "json \<Rightarrow> string"

fun join :: "string \<Rightarrow> string list \<Rightarrow> string" where
  "join sep [] = []"
| "join sep [s] = s"
| "join sep (s # t # ss) = s @ sep @ join sep (t # ss)"

text \<open>The results of a list of calls in order, or the first error thrown.\<close>

fun sequence :: "(error + 'a) list \<Rightarrow> error + 'a list" where
  "sequence [] = Inr []"
| "sequence (Inl e # rs) = Inl e"
| "sequence (Inr x # rs) = (case sequence rs of Inl e \<Rightarrow> Inl e | Inr xs \<Rightarrow> Inr (x # xs))"

text \<open>
  \<^verbatim>\<open>String(v)\<close> for a defined value. An array joins the strings of its elements with a
  comma, \<^verbatim>\<open>null\<close> elements as the empty string. A parsed object is \<^verbatim>\<open>[object Object]\<close>,
  unless it has a property \<^verbatim>\<open>toString\<close> of its own: that property is no function, it
  hides the inherited method, and the conversion throws a \<^verbatim>\<open>TypeError\<close>.
\<close>

fun ToString :: "builtins \<Rightarrow> json \<Rightarrow> error + string" where
  "ToString js JNull = Inr ''null''"
| "ToString js (JBool b) = Inr (if b then ''true'' else ''false'')"
| "ToString js (JNum n) = Inr (NumberToString js n)"
| "ToString js (JStr s) = Inr s"
| "ToString js (JArr xs) =
     (case sequence (map (\<lambda>x. if x = JNull then Inr [] else ToString js x) xs) of
        Inl e \<Rightarrow> Inl e
      | Inr ss \<Rightarrow> Inr (join '','' ss))"
| "ToString js (JObj kvs) =
     (if ''toString'' \<in> set (map fst kvs)
      then Inl (Exn ''TypeError'' ''Cannot convert object to primitive value'')
      else Inr ''[object Object]'')"

fun js_String :: "builtins \<Rightarrow> json option \<Rightarrow> error + string" where
  "js_String js None = Inr ''undefined''"
| "js_String js (Some v) = ToString js v"

text \<open>\<^verbatim>\<open>Number(v)\<close>: an array or object is first turned into its string.\<close>

fun js_Number :: "builtins \<Rightarrow> json option \<Rightarrow> error + jsnum" where
  "js_Number js None = Inr NaN"
| "js_Number js (Some JNull) = Inr (Fin 0)"
| "js_Number js (Some (JBool b)) = Inr (Fin (if b then 1 else 0))"
| "js_Number js (Some (JNum n)) = Inr n"
| "js_Number js (Some (JStr s)) = Inr (StringToNumber js s)"
| "js_Number js (Some (JArr xs)) = map_sum id (StringToNumber js) (ToString js (JArr xs))"
| "js_Number js (Some (JObj kvs)) = map_sum id (StringToNumber js) (ToString js (JObj kvs))"

fun isFinite :: "jsnum \<Rightarrow> bool" where
  "isFinite (Fin r) = True"
| "isFinite NaN = False"
| "isFinite PosInf = False"
| "isFinite NegInf = False"

text \<open>The truth value of \<^verbatim>\<open>if (v)\<close> and of the left operand of \<^verbatim>\<open>||\<close>.\<close>

fun truthy :: "json option \<Rightarrow> bool" where
  "truthy None = False"
| "truthy (Some JNull) = False"
| "truthy (Some (JBool b)) = b"
| "truthy (Some (JNum n)) = (n \<noteq> NaN \<and> n \<noteq> Fin 0)"
| "truthy (Some (JStr s)) = (s \<noteq> [])"
| "truthy (Some (JArr xs)) = True"
| "truthy (Some (JObj kvs)) = True"

text \<open>\<^verbatim>\<open>v ?? d\<close>: the default replaces \<^verbatim>\<open>undefined\<close> and \<^verbatim>\<open>null\<close> only.\<close>

fun nullish :: "json option \<Rightarrow> json \<Rightarrow> json" where
  "nullish None d = d"
| "nullish (Some JNull) d = d"
| "nullish (Some v) d = v"

text \<open>
  \<^verbatim>\<open>obj.k\<close> for the property names the handlers read (\<^verbatim>\<open>device_id\<close>, \<^verbatim>\<open>ts\<close>, \<^verbatim>\<open>fw_src\<close> and
  the channels), none of which a built-in prototype defines: reading from \<^verbatim>\<open>null\<close> throws
  a \<^verbatim>\<open>TypeError\<close>, an object answers with its own property (\<open>JObj\<close> lists each key once),
  every other value with \<^verbatim>\<open>undefined\<close>.
\<close>

fun getProp :: "json \<Rightarrow> string \<Rightarrow> error + json option" where
  "getProp JNull k = Inl (Exn ''TypeError'' (''Cannot read properties of null (reading '' @ k @ '')''))"
| "getProp (JObj kvs) k = Inr (map_of kvs k)"
| "getProp (JBool b) k = Inr None"
| "getProp (JNum n) k = Inr None"
| "getProp (JStr s) k = Inr None"
| "getProp (JArr xs) k = Inr None"

text \<open>Assignment \<^verbatim>\<open>o[k] = v\<close> on an object kept as the list of its properties.\<close>

fun assign :: "'k \<Rightarrow> 'v \<Rightarrow> ('k \<times> 'v) list \<Rightarrow> ('k \<times> 'v) list" where
  "assign k v [] = [(k, v)]"
| "assign k v ((k', v') # kvs) = (if k = k' then (k, v) # kvs else (k', v') # assign k v kvs)"

subsection \<open>Dates\<close>

text \<open>A \<^verbatim>\<open>Date\<close> holds a whole number of milliseconds since the epoch, or is invalid.\<close>

datatype jsdate = InvalidDate | DateMs int

definition trunc :: "real \<Rightarrow> int" where
  "trunc r = (if 0 \<le> r then \<lfloor>r\<rfloor> else \<lceil>r\<rceil>)"

fun TimeClip :: "jsnum \<Rightarrow> jsdate" where
  "TimeClip (Fin r) = (if 8640000000000000 < \<bar>r\<bar> then InvalidDate else DateMs (trunc r))"
| "TimeClip NaN = InvalidDate"
| "TimeClip PosInf = InvalidDate"
| "TimeClip NegInf = InvalidDate"

text \<open>\<^verbatim>\<open>new Date(v)\<close>: a string (or the string of an array or object) is parsed, every other
  value is taken as a number of milliseconds.\<close>

fun newDate :: "builtins \<Rightarrow> json option \<Rightarrow> error + jsdate" where
  "newDate js (Some (JStr s)) = Inr (TimeClip (Date_parse js s))"
| "newDate js (Some (JArr xs)) = map_sum id (\<lambda>s. TimeClip (Date_parse js s)) (ToString js (JArr xs))"
| "newDate js (Some (JObj kvs)) = map_sum id (\<lambda>s. TimeClip (Date_parse js s)) (ToString js (JObj kvs))"
| "newDate js v = map_sum id TimeClip (js_Number js v)"

section \<open>The store client's \<^verbatim>\<open>Point\<close>\<close>

datatype field_value = FloatField jsnum | StringField string

record point =
  measurement :: string
  p_tags :: "(string \<times> json option) list"
  p_fields :: "(string \<times> field_value) list"
  p_time :: "jsdate option"

definition new_Point :: "string \<Rightarrow> point" where
  "new_Point name = \<lparr>measurement = name, p_tags = [], p_fields = [], p_time = None\<rparr>"

definition tag :: "string \<Rightarrow> json option \<Rightarrow> point \<Rightarrow> point" where
  "tag name v p = p\<lparr>p_tags := assign name v (p_tags p)\<rparr>"

text \<open>\<^verbatim>\<open>floatField\<close> takes a number as it is and parses anything else; it throws on a value
  that is not finite.\<close>

definition floatField :: "builtins \<Rightarrow> string \<Rightarrow> json option \<Rightarrow> point \<Rightarrow> error + point" where
  "floatField js name v p =
     (case (case v of Some (JNum n) \<Rightarrow> Inr n | _ \<Rightarrow> map_sum id (parseFloat js) (js_String js v)) of
        Inl e \<Rightarrow> Inl e
      | Inr val \<Rightarrow>
          if isFinite val then Inr (p\<lparr>p_fields := assign name (FloatField val) (p_fields p)\<rparr>)
          else Inl (Exn ''Error'' (''invalid float value for field '' @ name)))"

definition stringField :: "string \<Rightarrow> string \<Rightarrow> point \<Rightarrow> point" where
  "stringField name s p = p\<lparr>p_fields := assign name (StringField s) (p_fields p)\<rparr>"

definition timestamp :: "jsdate \<Rightarrow> point \<Rightarrow> point" where
  "timestamp d p = p\<lparr>p_time := Some d\<rparr>"

section \<open>Utilities of the server\<close>

text \<open>
  \<^verbatim>\<open>function toNum(v) { const n = Number(v); return Number.isFinite(n) ? n : 0; }\<close>
\<close>

definition toNum :: "builtins \<Rightarrow> json option \<Rightarrow> error + jsnum" where
  "toNum js v =
     (case js_Number js v of
        Inl e \<Rightarrow> Inl e
      | Inr n \<Rightarrow> Inr (if isFinite n then n else Fin 0))"

text \<open>A chain of builder calls, each of which may throw: the first throw ends the chain.\<close>

fun chain :: "('a \<Rightarrow> 'p \<Rightarrow> error + 'p) \<Rightarrow> 'a list \<Rightarrow> 'p \<Rightarrow> error + 'p" where
  "chain f [] p = Inr p"
| "chain f (x # xs) p = (case f x p of Inl e \<Rightarrow> Inl e | Inr p' \<Rightarrow> chain f xs p')"

definition channels :: "string list" where
  "channels = [''u_batt_v'', ''i_batt_a'', ''t_batt_c'', ''t_ctrl_c'',
               ''speed_kmh'', ''ax_ms2'', ''ay_ms2'', ''az_ms2'']"

text \<open>\<^verbatim>\<open>.floatField(c, toNum(obj[c]))\<close>, one link of the chain in the message handler.\<close>

definition ingest_channel :: "builtins \<Rightarrow> json \<Rightarrow> string \<Rightarrow> point \<Rightarrow> error + point" where
  "ingest_channel js obj c p =
     (case getProp obj c of
        Inl e \<Rightarrow> Inl e
      | Inr v \<Rightarrow>
     (case toNum js v of
        Inl e \<Rightarrow> Inl e
      | Inr n \<Rightarrow> floatField js c (Some (JNum n)) p))"

text \<open>\<^verbatim>\<open>new Point('scooter').tag('device_id', String(obj.device_id ?? dflt))\<close>\<close>

definition tagged_point :: "builtins \<Rightarrow> json \<Rightarrow> string \<Rightarrow> error + point" where
  "tagged_point js obj dflt =
     (case getProp obj ''device_id'' of
        Inl e \<Rightarrow> Inl e
      | Inr dev \<Rightarrow>
     (case ToString js (nullish dev (JStr dflt)) of
        Inl e \<Rightarrow> Inl e
      | Inr s \<Rightarrow> Inr (tag ''device_id'' (Some (JStr s)) (new_Point ''scooter''))))"

text \<open>\<^verbatim>\<open>.stringField('fw_src', String(obj.fw_src ?? dflt))\<close>\<close>

definition fw_src_field :: "builtins \<Rightarrow> json \<Rightarrow> string \<Rightarrow> point \<Rightarrow> error + point" where
  "fw_src_field js obj dflt p =
     (case getProp obj ''fw_src'' of
        Inl e \<Rightarrow> Inl e
      | Inr fw \<Rightarrow>
     (case ToString js (nullish fw (JStr dflt)) of
        Inl e \<Rightarrow> Inl e
      | Inr s \<Rightarrow> Inr (stringField ''fw_src'' s p)))"

text \<open>\<^verbatim>\<open>if (obj.ts) p.timestamp(new Date(obj.ts));\<close>\<close>

definition ts_timestamp :: "builtins \<Rightarrow> json \<Rightarrow> point \<Rightarrow> error + point" where
  "ts_timestamp js obj p =
     (case getProp obj ''ts'' of
        Inl e \<Rightarrow> Inl e
      | Inr ts \<Rightarrow>
          if truthy ts
          then (case newDate js ts of Inl e \<Rightarrow> Inl e | Inr d \<Rightarrow> Inr (timestamp d p))
          else Inr p)"

text \<open>
  The point the message handler builds (lines 110 to 122 of the server): the tag, the
  eight channels in the order of the source, \<^verbatim>\<open>fw_src\<close>, and the timestamp when \<^verbatim>\<open>obj.ts\<close>
  is truthy.
\<close>

definition ingest_point :: "builtins \<Rightarrow> json \<Rightarrow> error + point" where
  "ingest_point js obj =
     (case tagged_point js obj ''unknown'' of
        Inl e \<Rightarrow> Inl e
      | Inr p0 \<Rightarrow>
     (case chain (ingest_channel js obj) channels p0 of
        Inl e \<Rightarrow> Inl e
      | Inr p1 \<Rightarrow>
     (case fw_src_field js obj ''unknown'' p1 of
        Inl e \<Rightarrow> Inl e
      | Inr p2 \<Rightarrow> ts_timestamp js obj p2)))"

section \<open>Live viewers\<close>

text \<open>
  A WebSocket of \<^verbatim>\<open>wss.clients\<close>: its \<^verbatim>\<open>readyState\<close> (1 is open), whether its \<^verbatim>\<open>send\<close>
  throws, and the frames it has been sent.
\<close>

record viewer =
  readyState :: nat
  send_throws :: bool
  received :: "string list"

definition ws_send :: "string \<Rightarrow> viewer \<Rightarrow> error + viewer" where
  "ws_send s ws =
     (if send_throws ws then Inl (Exn ''Error'' ''send failed'')
      else Inr (ws\<lparr>received := received ws @ [s]\<rparr>))"

text \<open>
  \<^verbatim>\<open>for (const ws of wss.clients) { try { if (ws.readyState === 1) ws.send(s); } catch {} }\<close>
\<close>

fun send_all :: "string \<Rightarrow> viewer list \<Rightarrow> viewer list" where
  "send_all s [] = []"
| "send_all s (ws # rest) =
     (if readyState ws = 1
      then (case ws_send s ws of Inl e \<Rightarrow> ws | Inr ws' \<Rightarrow> ws')
      else ws) # send_all s rest"

definition broadcast :: "builtins \<Rightarrow> json \<Rightarrow> viewer list \<Rightarrow> viewer list" where
  "broadcast js obj cls = send_all (JSON_stringify js obj) cls"

section \<open>The store client\<close>

text \<open>
  A row of a query result, with the three columns the handlers read. The write and
  query interfaces of the client are parameters: \<open>'w\<close> is the state of the writer, and
  a call answers with the error it throws (or rejects with), if any.
\<close>

record row =
  r_field :: string
  r_value :: json
  r_time :: string

record 'w store_client =
  writePoint :: "point \<Rightarrow> 'w \<Rightarrow> error option \<times> 'w"
  flush :: "'w \<Rightarrow> error option \<times> 'w"
  collectRows :: "string \<Rightarrow> 'w \<Rightarrow> error + row list"

text \<open>
  The writer is created with precision \<^verbatim>\<open>'s'\<close>: it stamps a point that carries no time
  with its own clock, and a point that carries a date with that date, both in whole
  seconds. (\<open>now\<close> and the date are in milliseconds; an invalid date has no seconds.)
\<close>

datatype stamp = Seconds int | NotATime

fun convertTime :: "int \<Rightarrow> jsdate option \<Rightarrow> stamp" where
  "convertTime now None = Seconds (now div 1000)"
| "convertTime now (Some (DateMs ms)) = Seconds (ms div 1000)"
| "convertTime now (Some InvalidDate) = NotATime"

section \<open>The server\<close>

record config =
  INFLUX_BUCKET :: string
  WRITE_TO_INFLUX :: string

datatype log_arg = LStr string | LVal json

text \<open>
  The state the handlers act on: the viewers, the writer, the points handed to
  \<^verbatim>\<open>writeApi.writePoint\<close> so far (one entry per call), and the lines of the console.
\<close>

record 'w server =
  clients :: "viewer list"
  writeApi :: 'w
  written :: "point list"
  console :: "log_arg list list"

text \<open>\<^verbatim>\<open>toLowerCase\<close> on the letters A to Z; every other character stays.\<close>

definition toLowerCase :: "string \<Rightarrow> string" where
  "toLowerCase s =
     map (\<lambda>c. let n = (of_char c :: nat) in if 65 \<le> n \<and> n \<le> 90 then char_of (n + 32) else c) s"

text \<open>\<^verbatim>\<open>writeApi.writePoint(p)\<close> inside \<^verbatim>\<open>try\<close>; \<open>on_error\<close> is the \<^verbatim>\<open>catch\<close> block.\<close>

definition try_writePoint ::
  "'w store_client \<Rightarrow> (error \<Rightarrow> 'w server \<Rightarrow> 'w server) \<Rightarrow> point \<Rightarrow> 'w server \<Rightarrow> 'w server" where
  "try_writePoint sc on_error p s =
     (case writePoint sc p (writeApi s) of
        (None, w) \<Rightarrow> s\<lparr>writeApi := w, written := written s @ [p]\<rparr>
      | (Some e, w) \<Rightarrow> on_error e (s\<lparr>writeApi := w, written := written s @ [p]\<rparr>))"

definition log_error :: "string \<Rightarrow> error \<Rightarrow> 'w server \<Rightarrow> 'w server" where
  "log_error label e s = s\<lparr>console := console s @ [[LStr label, LStr (message e)]]\<rparr>"

text \<open>\<^verbatim>\<open>mqttClient.on('message', ...)\<close> of the server (lines 96 to 128).\<close>

definition on_message ::
  "builtins \<Rightarrow> 'w store_client \<Rightarrow> config \<Rightarrow> string \<Rightarrow> 'w server \<Rightarrow> 'w server" where
  "on_message js sc cfg msg s =
     (case JSON_parse js msg of
        Inl e \<Rightarrow> s
      | Inr obj \<Rightarrow>
          (let s1 = s\<lparr>clients :=
                       broadcast js (JObj [(''type'', JStr ''telemetry''), (''data'', obj)]) (clients s)\<rparr>
           in if toLowerCase (WRITE_TO_INFLUX cfg) = ''true''
              then (case ingest_point js obj of
                      Inl e \<Rightarrow> log_error ''[Influx write error]'' e s1
                    | Inr p \<Rightarrow> try_writePoint sc (log_error ''[Influx write error]'') p s1)
              else s1))"

subsection \<open>The minimal ingester (\<^verbatim>\<open>src/index.js\<close>)\<close>

definition legacy_channel :: "builtins \<Rightarrow> json \<Rightarrow> string \<Rightarrow> point \<Rightarrow> error + point" where
  "legacy_channel js data c p =
     (case getProp data c of
        Inl e \<Rightarrow> Inl e
      | Inr v \<Rightarrow> floatField js c v p)"

definition legacy_point :: "builtins \<Rightarrow> json \<Rightarrow> error + point" where
  "legacy_point js data =
     (case getProp data ''device_id'' of
        Inl e \<Rightarrow> Inl e
      | Inr dev \<Rightarrow> chain (legacy_channel js data) channels (tag ''device_id'' dev (new_Point ''scooter'')))"

definition legacy_on_message ::
  "builtins \<Rightarrow> 'w store_client \<Rightarrow> string \<Rightarrow> 'w server \<Rightarrow> 'w server" where
  "legacy_on_message js sc msg s =
     (case JSON_parse js msg of
        Inl e \<Rightarrow> log_error ''[MQTT ERROR]'' e s
      | Inr data \<Rightarrow>
          (let s1 = s\<lparr>console := console s @ [[LStr ''[MQTT] Message:'', LVal data]]\<rparr>
           in case legacy_point js data of
                Inl e \<Rightarrow> log_error ''[MQTT ERROR]'' e s1
              | Inr p \<Rightarrow> try_writePoint sc (log_error ''[MQTT ERROR]'') p s1))"

subsection \<open>The REST handlers\<close>

record response =
  status :: nat
  body :: json

definition error_response :: "error \<Rightarrow> response" where
  "error_response e = \<lparr>status = 500, body = JObj [(''error'', JStr (error_String e))]\<rparr>"

definition latest_flux :: "config \<Rightarrow> string \<Rightarrow> string \<Rightarrow> string" where
  \<open>latest_flux cfg deviceId lookback =
     ''\<newline>    from(bucket: "'' @ INFLUX_BUCKET cfg @ ''")'' @
     ''\<newline>      |> range(start: -'' @ lookback @ '')'' @
     ''\<newline>      |> filter(fn: (r) => r._measurement == "scooter" and r.device_id == "'' @ deviceId @ ''")'' @
     ''\<newline>      |> last()\<newline>  ''\<close>

text \<open>\<^verbatim>\<open>req.query.range || dflt\<close>, for a parameter that is absent or one string.\<close>

fun or_default :: "string option \<Rightarrow> string \<Rightarrow> string" where
  "or_default None d = d"
| "or_default (Some r) d = (if r = [] then d else r)"

text \<open>
  The object \<^verbatim>\<open>latest\<close>: its own properties in the order of their creation (what
  \<^verbatim>\<open>res.json\<close> serializes), and whether it still inherits the \<^verbatim>\<open>__proto__\<close> setter of
  \<^verbatim>\<open>Object.prototype\<close>.
\<close>

record js_object =
  inherits_proto_setter :: bool
  own :: "(string \<times> json) list"

text \<open>
  \<^verbatim>\<open>o[k] = v\<close>. Every key but \<^verbatim>\<open>__proto__\<close> becomes (or stays) an own property. While the
  setter is inherited, \<^verbatim>\<open>o['__proto__'] = v\<close> creates no property: \<^verbatim>\<open>null\<close>, an object or an
  array becomes the prototype, any other value is ignored. The setter is lost with
  the prototype \<^verbatim>\<open>null\<close>, and hidden by a parsed object that has a property \<^verbatim>\<open>__proto__\<close>
  of its own; from then on \<^verbatim>\<open>__proto__\<close> is assigned like every other key.
\<close>

definition set_property :: "string \<Rightarrow> json \<Rightarrow> js_object \<Rightarrow> js_object" where
  "set_property k v ob =
     (if k = ''__proto__'' \<and> inherits_proto_setter ob
      then (case v of
              JNull \<Rightarrow> ob\<lparr>inherits_proto_setter := False\<rparr>
            | JObj kvs \<Rightarrow> ob\<lparr>inherits_proto_setter := (''__proto__'' \<notin> set (map fst kvs))\<rparr>
            | _ \<Rightarrow> ob)
      else ob\<lparr>own := assign k v (own ob)\<rparr>)"

text \<open>The loop body \<^verbatim>\<open>latest[r._field] = r._value; latest.ts = r._time;\<close>\<close>

definition merge_row :: "row \<Rightarrow> js_object \<Rightarrow> js_object" where
  "merge_row r latest = set_property ''ts'' (JStr (r_time r)) (set_property (r_field r) (r_value r) latest)"

text \<open>\<^verbatim>\<open>GET /api/latest/:deviceId\<close> (lines 138 to 160).\<close>

definition get_latest ::
  "'w store_client \<Rightarrow> config \<Rightarrow> string \<Rightarrow> string option \<Rightarrow> 'w \<Rightarrow> response" where
  "get_latest sc cfg deviceId range_param w =
     (case collectRows sc (latest_flux cfg deviceId (or_default range_param ''2h'')) w of
        Inl err \<Rightarrow> error_response err
      | Inr rows \<Rightarrow>
          \<lparr>status = 200,
           body = JObj (own (fold merge_row rows
                    \<lparr>inherits_proto_setter = True, own = [(''device_id'', JStr deviceId)]\<rparr>))\<rparr>)"

text \<open>The point of \<^verbatim>\<open>POST /api/write\<close>: every property of the body has a default.\<close>

definition write_defaults :: "(string \<times> real) list" where
  "write_defaults = [(''u_batt_v'', 40.1), (''i_batt_a'', 1.1), (''t_batt_c'', 25.0), (''t_ctrl_c'', 27.0),
                     (''speed_kmh'', 18.0), (''ax_ms2'', 0.1), (''ay_ms2'', 0.0), (''az_ms2'', 9.8)]"

definition write_channel :: "builtins \<Rightarrow> json \<Rightarrow> string \<times> real \<Rightarrow> point \<Rightarrow> error + point" where
  "write_channel js d cd p =
     (case getProp d (fst cd) of
        Inl e \<Rightarrow> Inl e
      | Inr v \<Rightarrow>
     (case toNum js (Some (nullish v (JNum (Fin (snd cd))))) of
        Inl e \<Rightarrow> Inl e
      | Inr n \<Rightarrow> floatField js (fst cd) (Some (JNum n)) p))"

definition write_point :: "builtins \<Rightarrow> json \<Rightarrow> error + point" where
  "write_point js d =
     (case tagged_point js d ''test'' of
        Inl e \<Rightarrow> Inl e
      | Inr p0 \<Rightarrow>
     (case chain (write_channel js d) write_defaults p0 of
        Inl e \<Rightarrow> Inl e
      | Inr p1 \<Rightarrow>
     (case fw_src_field js d ''api'' p1 of
        Inl e \<Rightarrow> Inl e
      | Inr p2 \<Rightarrow> ts_timestamp js d p2)))"

text \<open>\<^verbatim>\<open>req.body || {}\<close>\<close>

fun or_empty :: "json option \<Rightarrow> json" where
  "or_empty None = JObj []"
| "or_empty (Some b) = (if truthy (Some b) then b else JObj [])"

text \<open>\<^verbatim>\<open>POST /api/write\<close> (lines 190 to 212); \<open>req_body\<close> is \<^verbatim>\<open>req.body\<close>.\<close>

definition post_write ::
  "builtins \<Rightarrow> 'w store_client \<Rightarrow> json option \<Rightarrow> 'w server \<Rightarrow> response \<times> 'w server" where
  "post_write js sc req_body s =
     (case write_point js (or_empty req_body) of
           Inl e \<Rightarrow> (error_response e, s)
         | Inr p \<Rightarrow>
             (case writePoint sc p (writeApi s) of
                (Some e, w) \<Rightarrow> (error_response e, s\<lparr>writeApi := w, written := written s @ [p]\<rparr>)
              | (None, w) \<Rightarrow>
                  (case flush sc w of
                     (Some e, w') \<Rightarrow> (error_response e, s\<lparr>writeApi := w', written := written s @ [p]\<rparr>)
                   | (None, w') \<Rightarrow>
                       (\<lparr>status = 200, body = JObj [(''ok'', JBool True)]\<rparr>,
                        s\<lparr>writeApi := w', written := written s @ [p]\<rparr>))))"

section \<open>Properties of points\<close>

text \<open>A point whose float fields are all finite numbers.\<close>

fun finite_value :: "field_value \<Rightarrow> bool" where
  "finite_value (FloatField n) = isFinite n"
| "finite_value (StringField s) = True"

definition finite_fields :: "point \<Rightarrow> bool" where
  "finite_fields p = list_all (\<lambda>kv. finite_value (snd kv)) (p_fields p)"

section \<open>A worked environment\<close>

text \<open>
  The built-ins at the strings and values the worked examples below use: a finite table,
  which answers every other string as it answers an unparsable one. Only the examples
  refer to it; the theorems hold for every choice of the built-ins.
\<close>

definition example_msg :: string where
  \<open>example_msg = ''{"device_id":"m365-01","u_batt_v":39.5,"speed_kmh":"fast","ts":"2025-09-26T10:00:00.500Z"}''\<close>

definition example_record :: json where
  "example_record = JObj [(''device_id'', JStr ''m365-01''), (''u_batt_v'', JNum (Fin 39.5)),
                          (''speed_kmh'', JStr ''fast''), (''ts'', JStr ''2025-09-26T10:00:00.500Z'')]"

definition garbage_ts_msg :: string where
  \<open>garbage_ts_msg = ''{"ts":"garbage"}''\<close>

definition example_js :: builtins where
  \<open>example_js = \<lparr>
     StringToNumber = (\<lambda>s. if s = ''12.5'' then Fin 12.5 else NaN),
     NumberToString = (\<lambda>n. if n = Fin 7 then ''7'' else ''NaN''),
     parseFloat = (\<lambda>s. if s = ''12.5'' then Fin 12.5 else NaN),
     Date_parse = (\<lambda>s. if s = ''2025-09-26T10:00:00.500Z'' then Fin 1758880800500 else NaN),
     JSON_parse = (\<lambda>s. if s = example_msg then Inr example_record
                        else if s = garbage_ts_msg then Inr (JObj [(''ts'', JStr ''garbage'')])
                        else if s = ''{}'' then Inr (JObj [])
                        else Inl (Exn ''SyntaxError'' ''Unexpected token'')),
     JSON_stringify = (\<lambda>v. if v = JObj [(''type'', JStr ''telemetry''), (''data'', JObj [])]
                            then ''{"type":"telemetry","data":{}}''
                            else ''null'')\<rparr>\<close>

definition list_store :: "point list store_client" where
  "list_store = \<lparr>writePoint = (\<lambda>p w. (None, w @ [p])), flush = (\<lambda>w. (None, w)),
                  collectRows = (\<lambda>q w. Inr [])\<rparr>"

definition cfg_on :: config where
  "cfg_on = \<lparr>INFLUX_BUCKET = ''m365'', WRITE_TO_INFLUX = ''true''\<rparr>"

definition cfg_off :: config where
  "cfg_off = \<lparr>INFLUX_BUCKET = ''m365'', WRITE_TO_INFLUX = ''false''\<rparr>"

definition open_viewer :: viewer where
  "open_viewer = \<lparr>readyState = 1, send_throws = False, received = []\<rparr>"

definition closing_viewer :: viewer where
  "closing_viewer = \<lparr>readyState = 2, send_throws = False, received = []\<rparr>"

definition broken_viewer :: viewer where
  "broken_viewer = \<lparr>readyState = 1, send_throws = True, received = []\<rparr>"

definition example_server :: "point list server" where
  "example_server = \<lparr>clients = [open_viewer, closing_viewer, broken_viewer, open_viewer],
                      writeApi = [], written = [], console = []\<rparr>"

definition example_point :: point where
  "example_point = \<lparr>measurement = ''scooter'',
     p_tags = [(''device_id'', Some (JStr ''m365-01''))],
     p_fields = [(''u_batt_v'', FloatField (Fin 39.5)), (''i_batt_a'', FloatField (Fin 0)),
                 (''t_batt_c'', FloatField (Fin 0)), (''t_ctrl_c'', FloatField (Fin 0)),
                 (''speed_kmh'', FloatField (Fin 0)), (''ax_ms2'', FloatField (Fin 0)),
                 (''ay_ms2'', FloatField (Fin 0)), (''az_ms2'', FloatField (Fin 0)),
                 (''fw_src'', StringField ''unknown'')],
     p_time = Some (DateMs 1758880800500)\<rparr>"

definition default_point :: point where
  "default_point = \<lparr>measurement = ''scooter'',
     p_tags = [(''device_id'', Some (JStr ''test''))],
     p_fields = [(''u_batt_v'', FloatField (Fin 40.1)), (''i_batt_a'', FloatField (Fin 1.1)),
                 (''t_batt_c'', FloatField (Fin 25)), (''t_ctrl_c'', FloatField (Fin 27)),
                 (''speed_kmh'', FloatField (Fin 18)), (''ax_ms2'', FloatField (Fin 0.1)),
                 (''ay_ms2'', FloatField (Fin 0)), (''az_ms2'', FloatField (Fin 9.8)),
                 (''fw_src'', StringField ''api'')],
     p_time = None\<rparr>"

definition unknown_point :: point where
  "unknown_point = \<lparr>measurement = ''scooter'',
     p_tags = [(''device_id'', Some (JStr ''unknown''))],
     p_fields = [(''u_batt_v'', FloatField (Fin 0)), (''i_batt_a'', FloatField (Fin 0)),
                 (''t_batt_c'', FloatField (Fin 0)), (''t_ctrl_c'', FloatField (Fin 0)),
                 (''speed_kmh'', FloatField (Fin 0)), (''ax_ms2'', FloatField (Fin 0)),
                 (''ay_ms2'', FloatField (Fin 0)), (''az_ms2'', FloatField (Fin 0)),
                 (''fw_src'', StringField ''unknown'')],
     p_time = None\<rparr>"

definition offline_store :: "point list store_client" where
  "offline_store = \<lparr>writePoint = (\<lambda>p w. (None, w @ [p])),
                     flush = (\<lambda>w. (Some (Exn ''Error'' ''connect ECONNREFUSED''), w)),
                     collectRows = (\<lambda>q w. Inl (Exn ''Error'' ''connect ECONNREFUSED''))\<rparr>"

definition canned_store :: "row list \<Rightarrow> point list store_client" where
  "canned_store rows = \<lparr>writePoint = (\<lambda>p w. (None, w @ [p])), flush = (\<lambda>w. (None, w)),
                         collectRows = (\<lambda>q w. Inr rows)\<rparr>"

definition example_rows :: "row list" where
  "example_rows = [\<lparr>r_field = ''u_batt_v'', r_value = JNum (Fin 39.5), r_time = ''2025-09-26T10:00:00Z''\<rparr>,
                   \<lparr>r_field = ''speed_kmh'', r_value = JNum (Fin 12), r_time = ''2025-09-26T10:00:01Z''\<rparr>]"

definition hidden_toString :: json where
  "hidden_toString = JObj [(''device_id'', JObj [(''toString'', JNum (Fin 1))])]"

definition ts_rows :: "row list" where
  "ts_rows = [\<lparr>r_field = ''ts'', r_value = JNum (Fin 5), r_time = ''2025-09-26T10:00:00Z''\<rparr>]"

definition proto_rows :: "row list" where
  "proto_rows = [\<lparr>r_field = ''__proto__'', r_value = JNum (Fin 7), r_time = ''2025-09-26T10:00:00Z''\<rparr>]"

definition served_viewers :: "viewer list" where
  \<open>served_viewers =
     [open_viewer\<lparr>received := [''{"type":"telemetry","data":{}}'']\<rparr>,
      closing_viewer,
      broken_viewer,
      open_viewer\<lparr>received := [''{"type":"telemetry","data":{}}'']\<rparr>]\<close>

section \<open>Lemmas\<close>

lemma map_of_assign: "map_of (assign k v kvs) = (map_of kvs)(k \<mapsto> v)"
  by (induction kvs) (auto simp: fun_eq_iff)

lemma list_all_assign:
  "list_all (\<lambda>kv. P (snd kv)) kvs \<Longrightarrow> P v \<Longrightarrow> list_all (\<lambda>kv. P (snd kv)) (assign k v kvs)"
  by (induction kvs) auto

lemma toNum_Inr:
  "toNum js v = Inr n \<Longrightarrow>
     isFinite n \<and> (\<exists>m. js_Number js v = Inr m \<and> n = (if isFinite m then m else Fin 0))"
  by (auto simp: toNum_def split: sum.splits)

lemma floatField_number:
  "isFinite n \<Longrightarrow>
     floatField js c (Some (JNum n)) p = Inr (p\<lparr>p_fields := assign c (FloatField n) (p_fields p)\<rparr>)"
  by (simp add: floatField_def)

lemma ingest_channel_Inr:
  "ingest_channel js obj c p = Inr p' \<Longrightarrow>
     \<exists>v n. getProp obj c = Inr v \<and> toNum js v = Inr n \<and>
            p' = p\<lparr>p_fields := assign c (FloatField n) (p_fields p)\<rparr>"
  by (auto simp: ingest_channel_def floatField_number dest!: toNum_Inr split: sum.splits)

lemma write_channel_Inr:
  "write_channel js d cd p = Inr p' \<Longrightarrow>
     \<exists>v n. getProp d (fst cd) = Inr v \<and> toNum js (Some (nullish v (JNum (Fin (snd cd))))) = Inr n \<and>
            p' = p\<lparr>p_fields := assign (fst cd) (FloatField n) (p_fields p)\<rparr>"
  by (auto simp: write_channel_def floatField_number dest!: toNum_Inr split: sum.splits)

text \<open>What a chain of steps keeps, given that every step keeps it.\<close>

lemma chain_keeps:
  assumes step: "\<And>x p p'. f x p = Inr p' \<Longrightarrow> P p \<Longrightarrow> P p'"
  shows "chain f xs p = Inr p' \<Longrightarrow> P p \<Longrightarrow> P p'"
proof (induction xs arbitrary: p)
  case Nil
  then show ?case by simp
next
  case (Cons x xs)
  from Cons.prems(1) obtain p1 where p1: "f x p = Inr p1" and rest: "chain f xs p1 = Inr p'"
    by (auto split: sum.splits)
  from step [OF p1 Cons.prems(2)] Cons.IH [OF rest] show ?case by blast
qed

lemma chain_ingest_frame:
  assumes "chain (ingest_channel js obj) cs p = Inr p'"
  shows "p_tags p' = p_tags p \<and> p_time p' = p_time p \<and> measurement p' = measurement p"
  using assms
  by (rule chain_keeps [where P = "\<lambda>q. p_tags q = p_tags p \<and> p_time q = p_time p \<and> measurement q = measurement p", rotated])
     (auto dest!: ingest_channel_Inr)

lemma chain_write_frame:
  assumes "chain (write_channel js d) cs p = Inr p'"
  shows "p_tags p' = p_tags p \<and> p_time p' = p_time p \<and> measurement p' = measurement p"
  using assms
  by (rule chain_keeps [where P = "\<lambda>q. p_tags q = p_tags p \<and> p_time q = p_time p \<and> measurement q = measurement p", rotated])
     (auto dest!: write_channel_Inr)

lemma chain_ingest_finite:
  assumes "chain (ingest_channel js obj) cs p = Inr p'" and "finite_fields p"
  shows "finite_fields p'"
  using assms
  by (rule chain_keeps [where P = finite_fields, rotated])
     (auto dest!: ingest_channel_Inr toNum_Inr simp: finite_fields_def list_all_assign)

lemma chain_ingest_fields:
  "chain (ingest_channel js obj) cs p = Inr p' \<Longrightarrow>
     c \<in> set cs \<or> (\<exists>v n. getProp obj c = Inr v \<and> toNum js v = Inr n \<and>
                          map_of (p_fields p) c = Some (FloatField n)) \<Longrightarrow>
     \<exists>v n. getProp obj c = Inr v \<and> toNum js v = Inr n \<and> map_of (p_fields p') c = Some (FloatField n)"
proof (induction cs arbitrary: p)
  case Nil
  then show ?case by simp
next
  case (Cons x xs)
  from Cons.prems(1) obtain p1 where p1: "ingest_channel js obj x p = Inr p1"
    and rest: "chain (ingest_channel js obj) xs p1 = Inr p'"
    by (auto split: sum.splits)
  from ingest_channel_Inr [OF p1] obtain vx nx where vx: "getProp obj x = Inr vx"
    and nx: "toNum js vx = Inr nx"
    and p1_eq: "p1 = p\<lparr>p_fields := assign x (FloatField nx) (p_fields p)\<rparr>"
    by blast
  have look: "map_of (p_fields p1) = (map_of (p_fields p))(x \<mapsto> FloatField nx)"
    by (simp add: p1_eq map_of_assign)
  have "c \<in> set xs \<or> (\<exists>v n. getProp obj c = Inr v \<and> toNum js v = Inr n \<and>
                          map_of (p_fields p1) c = Some (FloatField n))"
    using Cons.prems(2) vx nx by (auto simp: look)
  from Cons.IH [OF rest this] show ?case .
qed

lemma tagged_point_Inr:
  "tagged_point js obj dflt = Inr p0 \<Longrightarrow>
     \<exists>dev s. getProp obj ''device_id'' = Inr dev \<and> ToString js (nullish dev (JStr dflt)) = Inr s \<and>
             p0 = \<lparr>measurement = ''scooter'', p_tags = [(''device_id'', Some (JStr s))],
                   p_fields = [], p_time = None\<rparr>"
  by (auto simp: tagged_point_def tag_def new_Point_def split: sum.splits)

lemma fw_src_field_Inr:
  "fw_src_field js obj dflt p1 = Inr p2 \<Longrightarrow>
     \<exists>fw s. getProp obj ''fw_src'' = Inr fw \<and> ToString js (nullish fw (JStr dflt)) = Inr s \<and>
            p2 = p1\<lparr>p_fields := assign ''fw_src'' (StringField s) (p_fields p1)\<rparr>"
  by (auto simp: fw_src_field_def stringField_def split: sum.splits)

lemma ts_timestamp_Inr:
  "ts_timestamp js obj p2 = Inr p \<Longrightarrow>
     \<exists>ts. getProp obj ''ts'' = Inr ts \<and>
          (if truthy ts then \<exists>d. newDate js ts = Inr d \<and> p = p2\<lparr>p_time := Some d\<rparr> else p = p2)"
  by (auto simp: ts_timestamp_def timestamp_def split: sum.splits if_splits)

lemma ingest_point_Inr:
  "ingest_point js obj = Inr p \<Longrightarrow>
     \<exists>p0 p1 p2. tagged_point js obj ''unknown'' = Inr p0 \<and>
                chain (ingest_channel js obj) channels p0 = Inr p1 \<and>
                fw_src_field js obj ''unknown'' p1 = Inr p2 \<and>
                ts_timestamp js obj p2 = Inr p"
  by (auto simp: ingest_point_def split: sum.splits)

lemma write_point_Inr:
  "write_point js d = Inr p \<Longrightarrow>
     \<exists>p0 p1 p2. tagged_point js d ''test'' = Inr p0 \<and>
                chain (write_channel js d) write_defaults p0 = Inr p1 \<and>
                fw_src_field js d ''api'' p1 = Inr p2 \<and>
                ts_timestamp js d p2 = Inr p"
  by (auto simp: write_point_def split: sum.splits)

lemma ts_timestamp_fields: "ts_timestamp js obj p2 = Inr p \<Longrightarrow> p_fields p = p_fields p2 \<and> p_tags p = p_tags p2"
  by (auto dest!: ts_timestamp_Inr split: if_splits)

lemma ingest_point_fields:
  assumes p: "ingest_point js obj = Inr p" and c: "c \<in> set channels"
  shows "\<exists>v n. getProp obj c = Inr v \<and> toNum js v = Inr n \<and> map_of (p_fields p) c = Some (FloatField n)"
proof -
  from ingest_point_Inr [OF p] obtain p0 p1 p2 where
    ch: "chain (ingest_channel js obj) channels p0 = Inr p1"
    and fw: "fw_src_field js obj ''unknown'' p1 = Inr p2"
    and ts: "ts_timestamp js obj p2 = Inr p"
    by blast
  from chain_ingest_fields [OF ch] c obtain v n where
    v: "getProp obj c = Inr v" and n: "toNum js v = Inr n"
    and f1: "map_of (p_fields p1) c = Some (FloatField n)"
    by blast
  have "c \<noteq> ''fw_src''" using c by (auto simp: channels_def)
  with f1 fw have "map_of (p_fields p2) c = Some (FloatField n)"
    by (auto dest!: fw_src_field_Inr simp: map_of_assign)
  with ts v n show ?thesis by (auto dest!: ts_timestamp_fields)
qed

lemma ingest_point_finite:
  assumes p: "ingest_point js obj = Inr p"
  shows "finite_fields p"
proof -
  from ingest_point_Inr [OF p] obtain p0 p1 p2 where
    tg: "tagged_point js obj ''unknown'' = Inr p0"
    and ch: "chain (ingest_channel js obj) channels p0 = Inr p1"
    and fw: "fw_src_field js obj ''unknown'' p1 = Inr p2"
    and ts: "ts_timestamp js obj p2 = Inr p"
    by blast
  have "finite_fields p0" using tg by (auto dest!: tagged_point_Inr simp: finite_fields_def)
  then have "finite_fields p1" using chain_ingest_finite [OF ch] by blast
  then have "finite_fields p2" using fw
    by (auto dest!: fw_src_field_Inr simp: finite_fields_def list_all_assign)
  then show ?thesis using ts_timestamp_fields [OF ts] by (simp add: finite_fields_def)
qed

lemma on_message_written:
  "written (on_message js sc cfg msg s) = written s @
     (case JSON_parse js msg of
        Inl e \<Rightarrow> []
      | Inr obj \<Rightarrow>
          if toLowerCase (WRITE_TO_INFLUX cfg) = ''true''
          then (case ingest_point js obj of Inl e \<Rightarrow> [] | Inr p \<Rightarrow> [p])
          else [])"
  by (simp add: on_message_def try_writePoint_def log_error_def Let_def
           split: sum.splits prod.splits option.splits)

lemma on_message_wrote:
  assumes "JSON_parse js msg = Inr obj"
    and "written (on_message js sc cfg msg s) = written s @ [p]"
  shows "ingest_point js obj = Inr p"
  using assms by (simp add: on_message_written split: if_splits sum.splits)

lemma toLowerCase_true: "toLowerCase ''true'' = ''true''"
  by (simp add: toLowerCase_def)

lemma toLowerCase_false: "toLowerCase ''false'' = ''false''"
  by (simp add: toLowerCase_def)

lemma example_parse: "JSON_parse example_js example_msg = Inr example_record"
  by (simp add: example_js_def)

lemma example_ingest: "ingest_point example_js example_record = Inr example_point"
  by (simp add: ingest_point_def tagged_point_def fw_src_field_def ts_timestamp_def
        example_js_def example_record_def example_point_def channels_def
        ingest_channel_def floatField_def toNum_def tag_def new_Point_def stringField_def
        timestamp_def trunc_def)

lemma send_all_map:
  "send_all t cls =
     map (\<lambda>ws. if readyState ws = 1 \<and> \<not> send_throws ws then ws\<lparr>received := received ws @ [t]\<rparr> else ws) cls"
  by (induction cls) (auto simp: ws_send_def)

lemma on_message_clients:
  "clients (on_message js sc cfg msg s) =
     (case JSON_parse js msg of
        Inl e \<Rightarrow> clients s
      | Inr obj \<Rightarrow> broadcast js (JObj [(''type'', JStr ''telemetry''), (''data'', obj)]) (clients s))"
  by (simp add: on_message_def try_writePoint_def log_error_def Let_def
           split: sum.splits prod.splits option.splits)

lemma post_write_written:
  "written (snd (post_write js sc req_body s)) = written s @
     (case write_point js (or_empty req_body) of Inl e \<Rightarrow> [] | Inr p \<Rightarrow> [p])"
  by (simp add: post_write_def split: sum.splits prod.splits option.splits)

lemma post_write_wrote:
  "written (snd (post_write js sc req_body s)) = written s @ [p] \<Longrightarrow>
     write_point js (or_empty req_body) = Inr p"
  by (simp add: post_write_written split: sum.splits)

lemma built_point_parts:
  assumes "tagged_point js obj dflt = Inr p0"
    and "p_tags p1 = p_tags p0 \<and> p_time p1 = p_time p0 \<and> measurement p1 = measurement p0"
    and "fw_src_field js obj dflt' p1 = Inr p2"
    and "ts_timestamp js obj p2 = Inr p"
  shows "(\<exists>dev s. getProp obj ''device_id'' = Inr dev \<and> ToString js (nullish dev (JStr dflt)) = Inr s \<and>
                  p_tags p = [(''device_id'', Some (JStr s))]) \<and>
         (\<exists>ts. getProp obj ''ts'' = Inr ts \<and>
               (if truthy ts then \<exists>d. newDate js ts = Inr d \<and> p_time p = Some d else p_time p = None))"
proof -
  from tagged_point_Inr [OF assms(1)] obtain dev s where
    dev: "getProp obj ''device_id'' = Inr dev" and s: "ToString js (nullish dev (JStr dflt)) = Inr s"
    and p0: "p_tags p0 = [(''device_id'', Some (JStr s))]" "p_time p0 = None"
    by auto
  from fw_src_field_Inr [OF assms(3)] have p2: "p_tags p2 = p_tags p1" "p_time p2 = p_time p1"
    by auto
  from ts_timestamp_Inr [OF assms(4)] obtain ts where ts: "getProp obj ''ts'' = Inr ts"
    and t: "if truthy ts then \<exists>d. newDate js ts = Inr d \<and> p = p2\<lparr>p_time := Some d\<rparr> else p = p2"
    by blast
  have tags: "p_tags p = [(''device_id'', Some (JStr s))]"
    using t p2 p0 assms(2) by (auto split: if_splits)
  have time: "if truthy ts then \<exists>d. newDate js ts = Inr d \<and> p_time p = Some d else p_time p = None"
    using t p2 p0 assms(2) by (auto split: if_splits)
  from dev s tags ts time show ?thesis by blast
qed

lemma ingest_point_parts:
  assumes "ingest_point js obj = Inr p"
  shows "(\<exists>dev s. getProp obj ''device_id'' = Inr dev \<and> ToString js (nullish dev (JStr ''unknown'')) = Inr s \<and>
                  p_tags p = [(''device_id'', Some (JStr s))]) \<and>
         (\<exists>ts. getProp obj ''ts'' = Inr ts \<and>
               (if truthy ts then \<exists>d. newDate js ts = Inr d \<and> p_time p = Some d else p_time p = None))"
proof -
  from ingest_point_Inr [OF assms] obtain p0 p1 p2 where
    a: "tagged_point js obj ''unknown'' = Inr p0"
    and b: "chain (ingest_channel js obj) channels p0 = Inr p1"
    and c: "fw_src_field js obj ''unknown'' p1 = Inr p2"
    and d: "ts_timestamp js obj p2 = Inr p"
    by blast
  from built_point_parts [OF a chain_ingest_frame [OF b] c d] show ?thesis .
qed

lemma write_point_parts:
  assumes "write_point js obj = Inr p"
  shows "(\<exists>dev s. getProp obj ''device_id'' = Inr dev \<and> ToString js (nullish dev (JStr ''test'')) = Inr s \<and>
                  p_tags p = [(''device_id'', Some (JStr s))]) \<and>
         (\<exists>ts. getProp obj ''ts'' = Inr ts \<and>
               (if truthy ts then \<exists>d. newDate js ts = Inr d \<and> p_time p = Some d else p_time p = None))"
proof -
  from write_point_Inr [OF assms] obtain p0 p1 p2 where
    a: "tagged_point js obj ''test'' = Inr p0"
    and b: "chain (write_channel js obj) write_defaults p0 = Inr p1"
    and c: "fw_src_field js obj ''api'' p1 = Inr p2"
    and d: "ts_timestamp js obj p2 = Inr p"
    by blast
  from built_point_parts [OF a chain_write_frame [OF b] c d] show ?thesis .
qed

lemma convertTime_Some:
  "convertTime now (Some d) = (case d of DateMs ms \<Rightarrow> Seconds (ms div 1000) | InvalidDate \<Rightarrow> NotATime)"
  by (cases d) auto

lemma example_write: "write_point js (JObj []) = Inr default_point"
  by (simp add: write_point_def tagged_point_def fw_src_field_def ts_timestamp_def
        default_point_def write_defaults_def write_channel_def floatField_def toNum_def
        tag_def new_Point_def stringField_def)

lemma example_unknown: "ingest_point js (JObj []) = Inr unknown_point"
  by (simp add: ingest_point_def tagged_point_def fw_src_field_def ts_timestamp_def
        unknown_point_def channels_def ingest_channel_def floatField_def toNum_def
        tag_def new_Point_def stringField_def)

lemma example_parse_empty: "JSON_parse example_js ''{}'' = Inr (JObj [])"
  by (simp add: example_js_def example_msg_def garbage_ts_msg_def)

lemma example_parse_garbage: "JSON_parse example_js garbage_ts_msg = Inr (JObj [(''ts'', JStr ''garbage'')])"
  by (simp add: example_js_def example_msg_def garbage_ts_msg_def)

lemma example_on_message_written:
  "written (on_message example_js list_store cfg_on example_msg example_server)
     = written example_server @ [example_point]"
  by (simp add: on_message_written example_parse cfg_on_def toLowerCase_true example_ingest)

lemma example_post_write_written:
  "written (snd (post_write js list_store None example_server)) = written example_server @ [default_point]"
  by (simp add: post_write_written example_write)

lemma map_fst_assign:
  "map fst (assign k v kvs) = (if k \<in> set (map fst kvs) then map fst kvs else map fst kvs @ [k])"
  by (induction kvs) force+

lemma keys_assign: "fst ` set (assign k v kvs) = insert k (fst ` set kvs)"
  using arg_cong [OF map_fst_assign [of k v kvs], of set] by (auto split: if_splits)

lemma distinct_keys_assign: "distinct (map fst kvs) \<Longrightarrow> distinct (map fst (assign k v kvs))"
  by (simp add: map_fst_assign)

lemma own_set_property:
  "k' \<noteq> ''__proto__'' \<Longrightarrow>
     map_of (own (set_property k v ob)) k' = (if k = k' then Some v else map_of (own ob) k')"
  by (auto simp: set_property_def map_of_assign split: json.splits)

lemma keys_set_property:
  "fst ` set (own (set_property k v ob)) - {''__proto__''} =
     insert k (fst ` set (own ob)) - {''__proto__''}"
  by (auto simp: set_property_def keys_assign split: json.splits)

lemma distinct_set_property:
  "distinct (map fst (own ob)) \<Longrightarrow> distinct (map fst (own (set_property k v ob)))"
  by (auto simp: set_property_def distinct_keys_assign split: json.splits)

lemma insert2_Diff_cong: "X - P = Y - P \<Longrightarrow> insert a (insert b X) - P = insert a (insert b Y) - P"
  by blast

lemma own_merge_row:
  "k \<noteq> ''__proto__'' \<Longrightarrow>
     map_of (own (merge_row r ob)) k =
       (if k = ''ts'' then Some (JStr (r_time r))
        else if k = r_field r then Some (r_value r)
        else map_of (own ob) k)"
  by (auto simp: merge_row_def own_set_property)

lemma keys_merge_row:
  "fst ` set (own (merge_row r ob)) - {''__proto__''} =
     insert ''ts'' (insert (r_field r) (fst ` set (own ob))) - {''__proto__''}"
proof -
  have "fst ` set (own (merge_row r ob)) - {''__proto__''} =
          insert ''ts'' (fst ` set (own (set_property (r_field r) (r_value r) ob))) - {''__proto__''}"
    by (simp only: merge_row_def keys_set_property)
  also have "\<dots> = insert ''ts'' (fst ` set (own (set_property (r_field r) (r_value r) ob)) - {''__proto__''})"
    by auto
  also have "\<dots> = insert ''ts'' (insert (r_field r) (fst ` set (own ob)) - {''__proto__''})"
    by (simp only: keys_set_property)
  also have "\<dots> = insert ''ts'' (insert (r_field r) (fst ` set (own ob))) - {''__proto__''}"
    by auto
  finally show ?thesis .
qed

lemma distinct_merge_row:
  "distinct (map fst (own ob)) \<Longrightarrow> distinct (map fst (own (merge_row r ob)))"
  by (simp add: merge_row_def distinct_set_property)

lemma fold_merge_row_snoc: "fold merge_row (rows @ [r]) ob = merge_row r (fold merge_row rows ob)"
  by simp

lemma fold_merge_row:
  assumes "distinct (map fst (own ob))"
  shows "distinct (map fst (own (fold merge_row rows ob))) \<and>
         fst ` set (own (fold merge_row rows ob)) - {''__proto__''} =
           (fst ` set (own ob) \<union> r_field ` set rows \<union> (if rows = [] then {} else {''ts''}))
             - {''__proto__''} \<and>
         (rows \<noteq> [] \<longrightarrow> map_of (own (fold merge_row rows ob)) ''ts'' = Some (JStr (r_time (last rows)))) \<and>
         (\<forall>k. k \<noteq> ''__proto__'' \<and> k \<notin> r_field ` set rows \<and> (k \<noteq> ''ts'' \<or> rows = []) \<longrightarrow>
              map_of (own (fold merge_row rows ob)) k = map_of (own ob) k) \<and>
         (distinct (map r_field rows) \<longrightarrow>
            (\<forall>r \<in> set rows. r_field r \<noteq> ''ts'' \<and> r_field r \<noteq> ''__proto__'' \<longrightarrow>
               map_of (own (fold merge_row rows ob)) (r_field r) = Some (r_value r)))"
proof (induction rows rule: rev_induct)
  case Nil
  with assms show ?case by simp
next
  case (snoc r rows)
  let ?L = "fold merge_row rows ob"
  from snoc.IH have ih_d: "distinct (map fst (own ?L))" by (rule conjunct1)
  from snoc.IH have ih: "fst ` set (own ?L) - {''__proto__''} =
          (fst ` set (own ob) \<union> r_field ` set rows \<union> (if rows = [] then {} else {''ts''}))
             - {''__proto__''}"
    by (rule conjunct1 [OF conjunct2])
  from snoc.IH have ih_o: "\<forall>k. k \<noteq> ''__proto__'' \<and> k \<notin> r_field ` set rows \<and> (k \<noteq> ''ts'' \<or> rows = []) \<longrightarrow>
              map_of (own ?L) k = map_of (own ob) k"
    by (rule conjunct1 [OF conjunct2 [OF conjunct2 [OF conjunct2]]])
  from snoc.IH have ih_v: "distinct (map r_field rows) \<longrightarrow>
            (\<forall>r \<in> set rows. r_field r \<noteq> ''ts'' \<and> r_field r \<noteq> ''__proto__'' \<longrightarrow>
               map_of (own ?L) (r_field r) = Some (r_value r))"
    by (rule conjunct2 [OF conjunct2 [OF conjunct2 [OF conjunct2]]])
  have d: "distinct (map fst (own (merge_row r ?L)))"
    using ih_d by (rule distinct_merge_row)
  have "fst ` set (own (merge_row r ?L)) - {''__proto__''} =
          insert ''ts'' (insert (r_field r)
            (fst ` set (own ob) \<union> r_field ` set rows \<union> (if rows = [] then {} else {''ts''})))
             - {''__proto__''}"
    unfolding keys_merge_row by (rule insert2_Diff_cong [OF ih])
  also have "\<dots> = (fst ` set (own ob) \<union> r_field ` set (rows @ [r]) \<union> {''ts''}) - {''__proto__''}"
    by (cases "rows = []") auto
  finally have k: "fst ` set (own (merge_row r ?L)) - {''__proto__''} =
             (fst ` set (own ob) \<union> r_field ` set (rows @ [r]) \<union> {''ts''}) - {''__proto__''}" .
  have t: "map_of (own (merge_row r ?L)) ''ts'' = Some (JStr (r_time r))"
    by (simp add: own_merge_row)
  have o: "\<forall>k. k \<noteq> ''__proto__'' \<and> k \<notin> r_field ` set (rows @ [r]) \<and> (k \<noteq> ''ts'' \<or> rows @ [r] = []) \<longrightarrow>
              map_of (own (merge_row r ?L)) k = map_of (own ob) k"
  proof (intro allI impI)
    fix k
    assume a: "k \<noteq> ''__proto__'' \<and> k \<notin> r_field ` set (rows @ [r]) \<and> (k \<noteq> ''ts'' \<or> rows @ [r] = [])"
    then have b: "k \<noteq> ''__proto__'' \<and> k \<notin> r_field ` set rows \<and> (k \<noteq> ''ts'' \<or> rows = [])"
      by simp
    have "map_of (own (merge_row r ?L)) k = map_of (own ?L) k"
      using a by (simp add: own_merge_row)
    also have "\<dots> = map_of (own ob) k" using ih_o b by blast
    finally show "map_of (own (merge_row r ?L)) k = map_of (own ob) k" .
  qed
  have v: "distinct (map r_field (rows @ [r])) \<longrightarrow>
            (\<forall>r' \<in> set (rows @ [r]). r_field r' \<noteq> ''ts'' \<and> r_field r' \<noteq> ''__proto__'' \<longrightarrow>
               map_of (own (merge_row r ?L)) (r_field r') = Some (r_value r'))"
  proof (intro impI ballI)
    fix r'
    assume dist: "distinct (map r_field (rows @ [r]))" and mem: "r' \<in> set (rows @ [r])"
      and nts: "r_field r' \<noteq> ''ts'' \<and> r_field r' \<noteq> ''__proto__''"
    show "map_of (own (merge_row r ?L)) (r_field r') = Some (r_value r')"
    proof (cases "r_field r' = r_field r")
      case True
      have "r_field r \<notin> r_field ` set rows" using dist by simp
      with True have "r' \<notin> set rows" by (metis imageI)
      with mem have "r' = r" by simp
      then show ?thesis using nts by (simp add: own_merge_row)
    next
      case False
      then have "r' \<in> set rows" using mem by auto
      moreover have "distinct (map r_field rows)" using dist by simp
      ultimately have "map_of (own ?L) (r_field r') = Some (r_value r')" using ih_v nts by blast
      then show ?thesis using False nts by (simp add: own_merge_row)
    qed
  qed
  have c3: "rows @ [r] \<noteq> [] \<longrightarrow>
         map_of (own (merge_row r ?L)) ''ts'' = Some (JStr (r_time (last (rows @ [r]))))"
    using t by simp
  have k': "fst ` set (own (merge_row r ?L)) - {''__proto__''} =
             (fst ` set (own ob) \<union> r_field ` set (rows @ [r]) \<union>
                (if rows @ [r] = [] then {} else {''ts''})) - {''__proto__''}"
    using k by simp
  show ?case
    unfolding fold_merge_row_snoc
    by (intro conjI) (rule d, rule k', rule c3, rule o, rule v)
qed

section \<open>Claims\<close>

text \<open>
  C1. Every point the message handler of the server hands to the writer has, for each of
  the eight channels, the field \<^verbatim>\<open>toNum(obj[c])\<close>; when the input value is absent or does
  not coerce to a finite number, that field is exactly 0; and no float field of the
  point is \<^verbatim>\<open>NaN\<close> or an infinity.
\<close>

theorem ingest_point_coerces:
  assumes "JSON_parse js msg = Inr obj"
    and "written (on_message js sc cfg msg s) = written s @ [p]"
    and "c \<in> set channels"
  shows "(\<exists>v n. getProp obj c = Inr v \<and> toNum js v = Inr n \<and>
              map_of (p_fields p) c = Some (FloatField n) \<and>
              ((v = None \<or> (\<exists>m. js_Number js v = Inr m \<and> \<not> isFinite m)) \<longrightarrow> n = Fin 0)) \<and>
         finite_fields p"
proof -
  have p: "ingest_point js obj = Inr p" using on_message_wrote [OF assms(1,2)] .
  from ingest_point_fields [OF p assms(3)] obtain v n where
    v: "getProp obj c = Inr v" and n: "toNum js v = Inr n"
    and f: "map_of (p_fields p) c = Some (FloatField n)"
    by blast
  have "v = None \<or> (\<exists>m. js_Number js v = Inr m \<and> \<not> isFinite m) \<Longrightarrow> n = Fin 0"
    using n by (auto simp: toNum_def)
  with v n f ingest_point_finite [OF p] show ?thesis by blast
qed

theorem ingest_point_coerces_witness:
  "JSON_parse example_js example_msg = Inr example_record \<and>
   written (on_message example_js list_store cfg_on example_msg example_server)
     = written example_server @ [example_point] \<and>
   ''speed_kmh'' \<in> set channels \<and>
   getProp example_record ''speed_kmh'' = Inr (Some (JStr ''fast'')) \<and>
   js_Number example_js (Some (JStr ''fast'')) = Inr NaN \<and>
   map_of (p_fields example_point) ''speed_kmh'' = Some (FloatField (Fin 0)) \<and>
   ''az_ms2'' \<in> set channels \<and>
   getProp example_record ''az_ms2'' = Inr None \<and>
   map_of (p_fields example_point) ''az_ms2'' = Some (FloatField (Fin 0)) \<and>
   finite_fields example_point"
proof -
  have h2: "written (on_message example_js list_store cfg_on example_msg example_server)
              = written example_server @ [example_point]"
    by (simp add: on_message_written example_parse cfg_on_def toLowerCase_true example_ingest)
  have h3: "''speed_kmh'' \<in> set channels" and h4: "''az_ms2'' \<in> set channels"
    by (simp_all add: channels_def)
  have g3: "getProp example_record ''speed_kmh'' = Inr (Some (JStr ''fast''))"
    and g4: "getProp example_record ''az_ms2'' = Inr None"
    by (simp_all add: example_record_def)
  have n3: "js_Number example_js (Some (JStr ''fast'')) = Inr NaN"
    by (simp add: example_js_def)
  show ?thesis
    using ingest_point_coerces [OF example_parse h2 h3] ingest_point_coerces [OF example_parse h2 h4]
      example_parse h2 h3 h4 g3 g4 n3
    by auto
qed

text \<open>
  C2. A bus message whose payload fails \<^verbatim>\<open>JSON.parse\<close> yields no record: the handler of the
  server leaves the whole state as it was (no viewer is sent anything, \<^verbatim>\<open>writePoint\<close> is
  not called), and the handler of the minimal ingester only prints the error.
\<close>

theorem unparsable_message_dropped:
  assumes "JSON_parse js msg = Inl e"
  shows "on_message js sc cfg msg s = s \<and>
         legacy_on_message js sc' msg s' =
           s'\<lparr>console := console s' @ [[LStr ''[MQTT ERROR]'', LStr (message e)]]\<rparr>"
  using assms by (simp add: on_message_def legacy_on_message_def log_error_def)

theorem unparsable_message_dropped_witness:
  "JSON_parse example_js ''not json'' = Inl (Exn ''SyntaxError'' ''Unexpected token'') \<and>
   on_message example_js list_store cfg_on ''not json'' example_server = example_server \<and>
   clients (legacy_on_message example_js list_store ''not json'' example_server) = clients example_server \<and>
   written (legacy_on_message example_js list_store ''not json'' example_server) = [] \<and>
   writeApi (legacy_on_message example_js list_store ''not json'' example_server) = []"
proof -
  have h: "JSON_parse example_js ''not json'' = Inl (Exn ''SyntaxError'' ''Unexpected token'')"
    by (simp add: example_js_def example_msg_def garbage_ts_msg_def)
  show ?thesis
    using unparsable_message_dropped [OF h, of list_store cfg_on example_server list_store example_server] h
    by (simp add: example_server_def)
qed

text \<open>
  C3, as amended. On the message handler and on \<^verbatim>\<open>POST /api/write\<close>, a truthy \<^verbatim>\<open>ts\<close> makes
  \<^verbatim>\<open>new Date(ts)\<close> the time of the point, which the writer renders in whole seconds when
  the date is valid; with \<^verbatim>\<open>ts\<close> absent (or \<^verbatim>\<open>null\<close>, 0, the empty string, \<^verbatim>\<open>false\<close>) the
  point carries no time and the writer stamps it with its own clock. A \<^verbatim>\<open>ts\<close> that does
  not parse gives an invalid date, which is not replaced by the time of ingestion.
\<close>

theorem ts_decides_timestamp:
  assumes "(JSON_parse js msg = Inr obj \<and> written (on_message js sc cfg msg s) = written s @ [p]) \<or>
           (obj = or_empty req_body \<and> written (snd (post_write js sc req_body s)) = written s @ [p])"
  shows "\<exists>ts. getProp obj ''ts'' = Inr ts \<and>
           (if truthy ts
            then \<exists>d. newDate js ts = Inr d \<and> p_time p = Some d \<and>
                     convertTime now (p_time p) =
                       (case d of DateMs ms \<Rightarrow> Seconds (ms div 1000) | InvalidDate \<Rightarrow> NotATime)
            else p_time p = None \<and> convertTime now (p_time p) = Seconds (now div 1000))"
proof -
  have "\<exists>ts. getProp obj ''ts'' = Inr ts \<and>
               (if truthy ts then \<exists>d. newDate js ts = Inr d \<and> p_time p = Some d else p_time p = None)"
    using assms ingest_point_parts [of js obj p] write_point_parts [of js obj p]
      on_message_wrote [of js msg obj sc cfg s p] post_write_wrote [of js sc req_body s p]
    by blast
  then obtain ts where ts: "getProp obj ''ts'' = Inr ts"
    and t: "if truthy ts then \<exists>d. newDate js ts = Inr d \<and> p_time p = Some d else p_time p = None"
    by blast
  show ?thesis
  proof (cases "truthy ts")
    case True
    with t obtain d where "newDate js ts = Inr d" "p_time p = Some d" by auto
    with ts True show ?thesis by (auto simp: convertTime_Some)
  next
    case False
    with t ts show ?thesis by auto
  qed
qed

theorem ts_decides_timestamp_witness:
  "JSON_parse example_js example_msg = Inr example_record \<and>
   written (on_message example_js list_store cfg_on example_msg example_server)
     = written example_server @ [example_point] \<and>
   getProp example_record ''ts'' = Inr (Some (JStr ''2025-09-26T10:00:00.500Z'')) \<and>
   newDate example_js (Some (JStr ''2025-09-26T10:00:00.500Z'')) = Inr (DateMs 1758880800500) \<and>
   p_time example_point = Some (DateMs 1758880800500) \<and>
   convertTime 1758880899000 (p_time example_point) = Seconds 1758880800 \<and>
   written (snd (post_write example_js list_store None example_server))
     = written example_server @ [default_point] \<and>
   getProp (or_empty None) ''ts'' = Inr None \<and>
   p_time default_point = None \<and>
   convertTime 1758880899000 (p_time default_point) = Seconds 1758880899"
proof -
  have a: "(JSON_parse example_js example_msg = Inr example_record \<and>
            written (on_message example_js list_store cfg_on example_msg example_server)
              = written example_server @ [example_point]) \<or>
           (example_record = or_empty None \<and>
            written (snd (post_write example_js list_store None example_server))
              = written example_server @ [example_point])"
    using example_parse example_on_message_written by blast
  have b: "(JSON_parse example_js example_msg = Inr (or_empty None) \<and>
            written (on_message example_js list_store cfg_on example_msg example_server)
              = written example_server @ [default_point]) \<or>
           (or_empty None = or_empty None \<and>
            written (snd (post_write example_js list_store None example_server))
              = written example_server @ [default_point])"
    using example_post_write_written by blast
  have g: "getProp example_record ''ts'' = Inr (Some (JStr ''2025-09-26T10:00:00.500Z''))"
    by (simp add: example_record_def)
  have d: "newDate example_js (Some (JStr ''2025-09-26T10:00:00.500Z'')) = Inr (DateMs 1758880800500)"
    by (simp add: example_js_def trunc_def)
  from ts_decides_timestamp [OF a, of 1758880899000] g d
  have 1: "p_time example_point = Some (DateMs 1758880800500) \<and>
           convertTime 1758880899000 (p_time example_point) = Seconds 1758880800"
    by auto
  from ts_decides_timestamp [OF b, of 1758880899000]
  have 2: "p_time default_point = None \<and>
           convertTime 1758880899000 (p_time default_point) = Seconds 1758880899"
    by auto
  from 1 2 g d example_parse example_on_message_written example_post_write_written
  show ?thesis by simp
qed

text \<open>
  C3 as stated fails: the record \<^verbatim>\<open>{"ts":"garbage"}\<close> is written with an invalid date, not
  with the time of ingestion.
\<close>

theorem unparsable_ts_counterexample:
  "JSON_parse example_js garbage_ts_msg = Inr (JObj [(''ts'', JStr ''garbage'')]) \<and>
   Date_parse example_js ''garbage'' = NaN \<and>
   written (on_message example_js list_store cfg_on garbage_ts_msg example_server)
     = [unknown_point\<lparr>p_time := Some InvalidDate\<rparr>] \<and>
   convertTime 1758880899000 (p_time (unknown_point\<lparr>p_time := Some InvalidDate\<rparr>)) = NotATime \<and>
   NotATime \<noteq> Seconds (1758880899000 div 1000)"
proof -
  have "ingest_point example_js (JObj [(''ts'', JStr ''garbage'')]) =
          Inr (unknown_point\<lparr>p_time := Some InvalidDate\<rparr>)"
    by (simp add: ingest_point_def tagged_point_def fw_src_field_def ts_timestamp_def
        unknown_point_def channels_def ingest_channel_def floatField_def toNum_def
        tag_def new_Point_def stringField_def timestamp_def example_js_def)
  then show ?thesis
    by (simp add: on_message_written example_parse_garbage cfg_on_def toLowerCase_true
          example_server_def)
       (simp add: example_js_def)
qed

text \<open>
  C4, as amended. A record with no \<^verbatim>\<open>device_id\<close> (or with \<^verbatim>\<open>null\<close>) is tagged \<^verbatim>\<open>unknown\<close> by the
  message handler of the server, and \<^verbatim>\<open>test\<close> by \<^verbatim>\<open>POST /api/write\<close>.
\<close>

theorem default_device_id:
  "(JSON_parse js msg = Inr obj \<and> written (on_message js sc cfg msg s) = written s @ [p] \<and>
      (getProp obj ''device_id'' = Inr None \<or> getProp obj ''device_id'' = Inr (Some JNull))
      \<longrightarrow> p_tags p = [(''device_id'', Some (JStr ''unknown''))]) \<and>
   (written (snd (post_write js sc' req_body s')) = written s' @ [q] \<and>
      (getProp (or_empty req_body) ''device_id'' = Inr None \<or>
       getProp (or_empty req_body) ''device_id'' = Inr (Some JNull))
      \<longrightarrow> p_tags q = [(''device_id'', Some (JStr ''test''))])"
proof (intro conjI impI)
  assume a: "JSON_parse js msg = Inr obj \<and> written (on_message js sc cfg msg s) = written s @ [p] \<and>
      (getProp obj ''device_id'' = Inr None \<or> getProp obj ''device_id'' = Inr (Some JNull))"
  then have "ingest_point js obj = Inr p" using on_message_wrote by blast
  from ingest_point_parts [OF this] a show "p_tags p = [(''device_id'', Some (JStr ''unknown''))]"
    by auto
next
  assume a: "written (snd (post_write js sc' req_body s')) = written s' @ [q] \<and>
      (getProp (or_empty req_body) ''device_id'' = Inr None \<or>
       getProp (or_empty req_body) ''device_id'' = Inr (Some JNull))"
  then have "write_point js (or_empty req_body) = Inr q" using post_write_wrote by blast
  from write_point_parts [OF this] a show "p_tags q = [(''device_id'', Some (JStr ''test''))]"
    by auto
qed

theorem default_device_id_witness:
  "JSON_parse example_js ''{}'' = Inr (JObj []) \<and>
   written (on_message example_js list_store cfg_on ''{}'' example_server)
     = written example_server @ [unknown_point] \<and>
   getProp (JObj []) ''device_id'' = Inr None \<and>
   p_tags unknown_point = [(''device_id'', Some (JStr ''unknown''))] \<and>
   written (snd (post_write example_js list_store None example_server))
     = written example_server @ [default_point] \<and>
   getProp (or_empty None) ''device_id'' = Inr None \<and>
   p_tags default_point = [(''device_id'', Some (JStr ''test''))]"
proof -
  have w: "written (on_message example_js list_store cfg_on ''{}'' example_server)
             = written example_server @ [unknown_point]"
    by (simp add: on_message_written example_parse_empty cfg_on_def toLowerCase_true example_unknown)
  have g: "getProp (JObj []) ''device_id'' = Inr None" and g': "getProp (or_empty None) ''device_id'' = Inr None"
    by simp_all
  note t = default_device_id [of example_js "''{}''" "JObj []" list_store cfg_on example_server
      unknown_point list_store None example_server default_point]
  from t example_parse_empty w g have 1: "p_tags unknown_point = [(''device_id'', Some (JStr ''unknown''))]"
    by blast
  from t example_post_write_written g' have 2: "p_tags default_point = [(''device_id'', Some (JStr ''test''))]"
    by blast
  from 1 2 example_parse_empty w g g' example_post_write_written show ?thesis by blast
qed

text \<open>
  C4 as stated fails on the manual-write endpoint: the body \<^verbatim>\<open>{}\<close> is written with the tag
  \<^verbatim>\<open>test\<close>, not \<^verbatim>\<open>unknown\<close>.
\<close>

theorem manual_write_device_id_counterexample:
  "getProp (or_empty (Some (JObj []))) ''device_id'' = Inr None \<and>
   written (snd (post_write example_js list_store (Some (JObj [])) example_server)) = [default_point] \<and>
   p_tags default_point = [(''device_id'', Some (JStr ''test''))] \<and>
   p_tags default_point \<noteq> [(''device_id'', Some (JStr ''unknown''))]"
  by (simp add: post_write_written example_write example_server_def default_point_def)

text \<open>
  C5. For a decoded record and any list of viewers, every viewer that is open and whose
  \<^verbatim>\<open>send\<close> does not throw receives the one serialized envelope
  \<^verbatim>\<open>{type: "telemetry", data: record}\<close>; every other viewer is left as it was, and what
  one viewer gets does not depend on the others.
\<close>

theorem broadcast_reaches_open_viewers:
  assumes "JSON_parse js msg = Inr obj"
  shows "clients (on_message js sc cfg msg s) =
           map (\<lambda>ws. if readyState ws = 1 \<and> \<not> send_throws ws
                     then ws\<lparr>received := received ws @
                            [JSON_stringify js (JObj [(''type'', JStr ''telemetry''), (''data'', obj)])]\<rparr>
                     else ws)
               (clients s)"
  using assms by (simp add: on_message_clients broadcast_def send_all_map)

theorem broadcast_reaches_open_viewers_witness:
  \<open>JSON_parse example_js ''{}'' = Inr (JObj []) \<and>
   clients (on_message example_js list_store cfg_on ''{}'' example_server) =
     [open_viewer\<lparr>received := [''{"type":"telemetry","data":{}}'']\<rparr>,
      closing_viewer,
      broken_viewer,
      open_viewer\<lparr>received := [''{"type":"telemetry","data":{}}'']\<rparr>]\<close>
proof -
  have h: "JSON_parse example_js ''{}'' = Inr (JObj [])"
    by (simp add: example_js_def example_msg_def garbage_ts_msg_def)
  show ?thesis
    using broadcast_reaches_open_viewers [OF h, of list_store cfg_on example_server] h
    by (simp add: example_server_def open_viewer_def closing_viewer_def broken_viewer_def
          example_js_def)
qed

text \<open>
  C6. \<^verbatim>\<open>POST /api/write\<close> answers 200 or 500. It answers 200 with \<^verbatim>\<open>{ok: true}\<close> only when the
  point was built, \<^verbatim>\<open>writePoint\<close> took it, and \<^verbatim>\<open>flush\<close> then completed, the writer being
  left in the state after that flush; it answers 500 with \<^verbatim>\<open>{error: String(e)}\<close> when the
  construction of the point, \<^verbatim>\<open>writePoint\<close> or \<^verbatim>\<open>flush\<close> threw \<open>e\<close>.
\<close>

theorem post_write_responds:
  assumes "post_write js sc req_body s = (r, s')"
  shows "(status r = 200 \<or> status r = 500) \<and>
         (status r = 200 \<longrightarrow>
            body r = JObj [(''ok'', JBool True)] \<and>
            (\<exists>p w. write_point js (or_empty req_body) = Inr p \<and>
                   writePoint sc p (writeApi s) = (None, w) \<and>
                   flush sc w = (None, writeApi s') \<and>
                   written s' = written s @ [p])) \<and>
         (status r = 500 \<longrightarrow>
            (\<exists>e. body r = JObj [(''error'', JStr (error_String e))] \<and>
                 (write_point js (or_empty req_body) = Inl e \<or>
                  (\<exists>p w. write_point js (or_empty req_body) = Inr p \<and>
                         writePoint sc p (writeApi s) = (Some e, w)) \<or>
                  (\<exists>p w w'. write_point js (or_empty req_body) = Inr p \<and>
                            writePoint sc p (writeApi s) = (None, w) \<and>
                            flush sc w = (Some e, w')))))"
proof (cases "write_point js (or_empty req_body)")
  case (Inl e)
  with assms show ?thesis by (auto simp: post_write_def error_response_def)
next
  case (Inr p)
  show ?thesis
  proof (cases "writePoint sc p (writeApi s)")
    case (Pair eo w)
    show ?thesis
    proof (cases eo)
      case (Some e)
      with assms Inr Pair show ?thesis by (auto simp: post_write_def error_response_def)
    next
      case None
      show ?thesis
      proof (cases "flush sc w")
        case (Pair fo w')
        with assms Inr \<open>writePoint sc p (writeApi s) = (eo, w)\<close> None show ?thesis
          by (cases fo) (auto simp: post_write_def error_response_def)
      qed
    qed
  qed
qed

theorem post_write_responds_witness:
  "post_write example_js list_store None example_server =
     (\<lparr>status = 200, body = JObj [(''ok'', JBool True)]\<rparr>,
      example_server\<lparr>writeApi := [default_point], written := [default_point]\<rparr>) \<and>
   (\<exists>p w. write_point example_js (or_empty None) = Inr p \<and>
          writePoint list_store p (writeApi example_server) = (None, w) \<and>
          flush list_store w = (None, [default_point])) \<and>
   post_write example_js offline_store None example_server =
     (\<lparr>status = 500, body = JObj [(''error'', JStr ''Error: connect ECONNREFUSED'')]\<rparr>,
      example_server\<lparr>writeApi := [default_point], written := [default_point]\<rparr>) \<and>
   flush offline_store [default_point] = (Some (Exn ''Error'' ''connect ECONNREFUSED''), [default_point]) \<and>
   post_write example_js list_store (Some hidden_toString) example_server =
     (\<lparr>status = 500,
        body = JObj [(''error'', JStr ''TypeError: Cannot convert object to primitive value'')]\<rparr>,
      example_server) \<and>
   write_point example_js (or_empty (Some hidden_toString)) =
     Inl (Exn ''TypeError'' ''Cannot convert object to primitive value'')"
proof -
  have a: "post_write example_js list_store None example_server =
     (\<lparr>status = 200, body = JObj [(''ok'', JBool True)]\<rparr>,
      example_server\<lparr>writeApi := [default_point], written := [default_point]\<rparr>)"
    by (simp add: post_write_def example_write list_store_def example_server_def)
  have b: "post_write example_js offline_store None example_server =
     (\<lparr>status = 500, body = JObj [(''error'', JStr ''Error: connect ECONNREFUSED'')]\<rparr>,
      example_server\<lparr>writeApi := [default_point], written := [default_point]\<rparr>)"
    by (simp add: post_write_def example_write offline_store_def example_server_def error_response_def)
  have oe: "or_empty (Some hidden_toString) = hidden_toString"
    by (simp add: hidden_toString_def)
  have c0: "write_point example_js (or_empty (Some hidden_toString)) =
     Inl (Exn ''TypeError'' ''Cannot convert object to primitive value'')"
    unfolding oe by (simp add: hidden_toString_def write_point_def tagged_point_def)
  have c: "post_write example_js list_store (Some hidden_toString) example_server =
     (\<lparr>status = 500,
        body = JObj [(''error'', JStr ''TypeError: Cannot convert object to primitive value'')]\<rparr>,
      example_server)"
    by (simp only: post_write_def c0) (simp add: error_response_def)
  have fl: "flush offline_store [default_point] = (Some (Exn ''Error'' ''connect ECONNREFUSED''), [default_point])"
    by (simp add: offline_store_def)
  from post_write_responds [OF a]
  have "\<exists>p w. write_point example_js (or_empty None) = Inr p \<and>
          writePoint list_store p (writeApi example_server) = (None, w) \<and>
          flush list_store w = (None, [default_point])"
    by (auto simp: example_server_def)
  with a b c c0 fl show ?thesis by blast
qed

text \<open>
  C7, as amended. When the store answers the latest-value query (lookback \<^verbatim>\<open>2h\<close> unless
  the request names one) with rows of distinct fields, the response is 200 with one flat
  object whose keys are distinct: apart from \<^verbatim>\<open>__proto__\<close>, they are \<^verbatim>\<open>device_id\<close>, the field
  names and (when there is a row) \<^verbatim>\<open>ts\<close>. The value of every row whose field is named
  neither \<^verbatim>\<open>ts\<close> nor \<^verbatim>\<open>__proto__\<close> stands under its field name, and \<^verbatim>\<open>ts\<close> is the time of
  the last row.
\<close>

theorem latest_merges_rows:
  assumes "collectRows sc (latest_flux cfg deviceId (or_default range_param ''2h'')) w = Inr rows"
    and "distinct (map r_field rows)"
  shows "\<exists>kvs. get_latest sc cfg deviceId range_param w = \<lparr>status = 200, body = JObj kvs\<rparr> \<and>
           distinct (map fst kvs) \<and>
           set (map fst kvs) - {''__proto__''} =
             ({''device_id''} \<union> set (map r_field rows) \<union> (if rows = [] then {} else {''ts''}))
               - {''__proto__''} \<and>
           (\<forall>r \<in> set rows. r_field r \<noteq> ''ts'' \<and> r_field r \<noteq> ''__proto__'' \<longrightarrow>
                map_of kvs (r_field r) = Some (r_value r)) \<and>
           (rows \<noteq> [] \<longrightarrow> map_of kvs ''ts'' = Some (JStr (r_time (last rows)))) \<and>
           (''device_id'' \<notin> set (map r_field rows) \<longrightarrow> map_of kvs ''device_id'' = Some (JStr deviceId))"
proof -
  let ?ob = "\<lparr>inherits_proto_setter = True, own = [(''device_id'', JStr deviceId)]\<rparr>"
  let ?kvs = "own (fold merge_row rows ?ob)"
  have g: "get_latest sc cfg deviceId range_param w = \<lparr>status = 200, body = JObj ?kvs\<rparr>"
    using assms(1) by (simp add: get_latest_def)
  have dl: "distinct (map fst (own ?ob))" by simp
  note f = fold_merge_row [OF dl, of rows]
  from f have 1: "distinct (map fst ?kvs)" by (rule conjunct1)
  from f have f2: "fst ` set ?kvs - {''__proto__''} =
           (fst ` set (own ?ob) \<union> r_field ` set rows \<union> (if rows = [] then {} else {''ts''}))
             - {''__proto__''}"
    by (rule conjunct1 [OF conjunct2])
  from f have 4: "rows \<noteq> [] \<longrightarrow> map_of ?kvs ''ts'' = Some (JStr (r_time (last rows)))"
    by (rule conjunct1 [OF conjunct2 [OF conjunct2]])
  from f have f4: "\<forall>k. k \<noteq> ''__proto__'' \<and> k \<notin> r_field ` set rows \<and> (k \<noteq> ''ts'' \<or> rows = []) \<longrightarrow>
              map_of ?kvs k = map_of (own ?ob) k"
    by (rule conjunct1 [OF conjunct2 [OF conjunct2 [OF conjunct2]]])
  from f have f5: "distinct (map r_field rows) \<longrightarrow>
            (\<forall>r \<in> set rows. r_field r \<noteq> ''ts'' \<and> r_field r \<noteq> ''__proto__'' \<longrightarrow>
               map_of ?kvs (r_field r) = Some (r_value r))"
    by (rule conjunct2 [OF conjunct2 [OF conjunct2 [OF conjunct2]]])
  have "fst ` set (own ?ob) = {''device_id''}" by simp
  with f2 have 2: "set (map fst ?kvs) - {''__proto__''} =
             ({''device_id''} \<union> set (map r_field rows) \<union> (if rows = [] then {} else {''ts''}))
               - {''__proto__''}"
    by (simp only: set_map)
  from f5 assms(2) have 3: "\<forall>r \<in> set rows. r_field r \<noteq> ''ts'' \<and> r_field r \<noteq> ''__proto__'' \<longrightarrow>
                map_of ?kvs (r_field r) = Some (r_value r)"
    by (rule mp)
  have 5: "''device_id'' \<notin> set (map r_field rows) \<longrightarrow> map_of ?kvs ''device_id'' = Some (JStr deviceId)"
  proof
    assume a: "''device_id'' \<notin> set (map r_field rows)"
    have c: "''device_id'' \<noteq> ''__proto__'' \<and> ''device_id'' \<notin> r_field ` set rows \<and>
          (''device_id'' \<noteq> ''ts'' \<or> rows = [])"
      using a by simp
    from f4 have "''device_id'' \<noteq> ''__proto__'' \<and> ''device_id'' \<notin> r_field ` set rows \<and>
          (''device_id'' \<noteq> ''ts'' \<or> rows = []) \<longrightarrow>
          map_of ?kvs ''device_id'' = map_of (own ?ob) ''device_id''"
      by (rule spec)
    from this c have "map_of ?kvs ''device_id'' = map_of (own ?ob) ''device_id''" by (rule mp)
    then show "map_of ?kvs ''device_id'' = Some (JStr deviceId)" by simp
  qed
  show ?thesis
    by (rule exI [of _ ?kvs]) (intro conjI, rule g, rule 1, rule 2, rule 3, rule 4, rule 5)
qed

theorem latest_merges_rows_witness:
  "collectRows (canned_store example_rows) (latest_flux cfg_on ''m365-01'' (or_default None ''2h'')) []
     = Inr example_rows \<and>
   distinct (map r_field example_rows) \<and>
   get_latest (canned_store example_rows) cfg_on ''m365-01'' None [] =
     \<lparr>status = 200,
      body = JObj [(''device_id'', JStr ''m365-01''), (''u_batt_v'', JNum (Fin 39.5)),
                   (''ts'', JStr ''2025-09-26T10:00:01Z''), (''speed_kmh'', JNum (Fin 12))]\<rparr> \<and>
   (\<exists>kvs. get_latest (canned_store example_rows) cfg_on ''m365-01'' None [] =
            \<lparr>status = 200, body = JObj kvs\<rparr> \<and>
          map_of kvs ''u_batt_v'' = Some (JNum (Fin 39.5)) \<and>
          map_of kvs ''speed_kmh'' = Some (JNum (Fin 12)) \<and>
          map_of kvs ''ts'' = Some (JStr ''2025-09-26T10:00:01Z''))"
proof -
  have h1: "collectRows (canned_store example_rows)
              (latest_flux cfg_on ''m365-01'' (or_default None ''2h'')) [] = Inr example_rows"
    by (simp add: canned_store_def)
  have h2: "distinct (map r_field example_rows)"
    by (simp add: example_rows_def)
  have g: "get_latest (canned_store example_rows) cfg_on ''m365-01'' None [] =
     \<lparr>status = 200,
      body = JObj [(''device_id'', JStr ''m365-01''), (''u_batt_v'', JNum (Fin 39.5)),
                   (''ts'', JStr ''2025-09-26T10:00:01Z''), (''speed_kmh'', JNum (Fin 12))]\<rparr>"
    by (simp add: get_latest_def canned_store_def example_rows_def merge_row_def set_property_def)
  from latest_merges_rows [OF h1 h2] obtain kvs where
    k: "get_latest (canned_store example_rows) cfg_on ''m365-01'' None [] = \<lparr>status = 200, body = JObj kvs\<rparr>"
    and v: "\<forall>r \<in> set example_rows. r_field r \<noteq> ''ts'' \<and> r_field r \<noteq> ''__proto__'' \<longrightarrow>
              map_of kvs (r_field r) = Some (r_value r)"
    and t: "example_rows \<noteq> [] \<longrightarrow> map_of kvs ''ts'' = Some (JStr (r_time (last example_rows)))"
    by blast
  from v have "map_of kvs ''u_batt_v'' = Some (JNum (Fin 39.5))"
    and "map_of kvs ''speed_kmh'' = Some (JNum (Fin 12))"
    by (simp_all add: example_rows_def)
  moreover from t have "map_of kvs ''ts'' = Some (JStr ''2025-09-26T10:00:01Z'')"
    by (simp add: example_rows_def)
  ultimately show ?thesis using h1 h2 g k by blast
qed

text \<open>
  C7 as stated fails: the value of a row whose field is named \<^verbatim>\<open>ts\<close> is overwritten by
  the time of that row, and a row whose field is named \<^verbatim>\<open>__proto__\<close> leaves no key in
  the response.
\<close>

theorem field_named_ts_counterexample:
  "distinct (map r_field ts_rows) \<and>
   ts_rows = [\<lparr>r_field = ''ts'', r_value = JNum (Fin 5), r_time = ''2025-09-26T10:00:00Z''\<rparr>] \<and>
   get_latest (canned_store ts_rows) cfg_on ''m365-01'' None [] =
     \<lparr>status = 200,
      body = JObj [(''device_id'', JStr ''m365-01''), (''ts'', JStr ''2025-09-26T10:00:00Z'')]\<rparr> \<and>
   map_of [(''device_id'', JStr ''m365-01''), (''ts'', JStr ''2025-09-26T10:00:00Z'')] ''ts''
     \<noteq> Some (JNum (Fin 5)) \<and>
   distinct (map r_field proto_rows) \<and>
   proto_rows = [\<lparr>r_field = ''__proto__'', r_value = JNum (Fin 7), r_time = ''2025-09-26T10:00:00Z''\<rparr>] \<and>
   get_latest (canned_store proto_rows) cfg_on ''m365-01'' None [] =
     \<lparr>status = 200,
      body = JObj [(''device_id'', JStr ''m365-01''), (''ts'', JStr ''2025-09-26T10:00:00Z'')]\<rparr> \<and>
   map_of [(''device_id'', JStr ''m365-01''), (''ts'', JStr ''2025-09-26T10:00:00Z'')] ''__proto__''
     \<noteq> Some (JNum (Fin 7))"
  by (simp add: get_latest_def canned_store_def ts_rows_def proto_rows_def merge_row_def set_property_def)

text \<open>
  C9. For a decoded record, whatever \<^verbatim>\<open>WRITE_TO_INFLUX\<close> holds, every viewer that is open
  and whose \<^verbatim>\<open>send\<close> does not throw is sent the envelope and every other viewer is left
  as it was, so that two runs that differ in the configuration only leave the same
  viewers. With the toggle off nothing else changes: no point is handed to the writer
  and nothing is printed. With the toggle on the point built from the record, if it
  can be built, is handed to \<^verbatim>\<open>writePoint\<close> once.
\<close>

theorem toggle_leaves_broadcast:
  assumes "JSON_parse js msg = Inr obj"
  shows "clients (on_message js sc cfg msg s) =
           map (\<lambda>ws. if readyState ws = 1 \<and> \<not> send_throws ws
                     then ws\<lparr>received := received ws @
                            [JSON_stringify js (JObj [(''type'', JStr ''telemetry''), (''data'', obj)])]\<rparr>
                     else ws)
               (clients s) \<and>
         clients (on_message js sc cfg msg s) = clients (on_message js sc cfg' msg s) \<and>
         (toLowerCase (WRITE_TO_INFLUX cfg) \<noteq> ''true'' \<longrightarrow>
            written (on_message js sc cfg msg s) = written s \<and>
            writeApi (on_message js sc cfg msg s) = writeApi s \<and>
            console (on_message js sc cfg msg s) = console s) \<and>
         (toLowerCase (WRITE_TO_INFLUX cfg) = ''true'' \<longrightarrow>
            (case ingest_point js obj of
               Inl e \<Rightarrow> written (on_message js sc cfg msg s) = written s \<and>
                        writeApi (on_message js sc cfg msg s) = writeApi s
             | Inr p \<Rightarrow> written (on_message js sc cfg msg s) = written s @ [p] \<and>
                        writeApi (on_message js sc cfg msg s) = snd (writePoint sc p (writeApi s))))"
proof (intro conjI impI)
  show "clients (on_message js sc cfg msg s) =
           map (\<lambda>ws. if readyState ws = 1 \<and> \<not> send_throws ws
                     then ws\<lparr>received := received ws @
                            [JSON_stringify js (JObj [(''type'', JStr ''telemetry''), (''data'', obj)])]\<rparr>
                     else ws)
               (clients s)"
    using assms by (simp add: on_message_clients broadcast_def send_all_map)
  show "clients (on_message js sc cfg msg s) = clients (on_message js sc cfg' msg s)"
    by (simp add: on_message_clients)
next
  assume "toLowerCase (WRITE_TO_INFLUX cfg) \<noteq> ''true''"
  with assms have "on_message js sc cfg msg s =
      s\<lparr>clients := broadcast js (JObj [(''type'', JStr ''telemetry''), (''data'', obj)]) (clients s)\<rparr>"
    by (simp add: on_message_def)
  then show "written (on_message js sc cfg msg s) = written s"
    and "writeApi (on_message js sc cfg msg s) = writeApi s"
    and "console (on_message js sc cfg msg s) = console s"
    by simp_all
next
  assume "toLowerCase (WRITE_TO_INFLUX cfg) = ''true''"
  with assms show "case ingest_point js obj of
               Inl e \<Rightarrow> written (on_message js sc cfg msg s) = written s \<and>
                        writeApi (on_message js sc cfg msg s) = writeApi s
             | Inr p \<Rightarrow> written (on_message js sc cfg msg s) = written s @ [p] \<and>
                        writeApi (on_message js sc cfg msg s) = snd (writePoint sc p (writeApi s))"
    by (simp add: on_message_def try_writePoint_def log_error_def Let_def
          split: sum.splits prod.splits option.splits)
qed

theorem toggle_leaves_broadcast_witness:
  \<open>served_viewers =
     [open_viewer\<lparr>received := [''{"type":"telemetry","data":{}}'']\<rparr>,
      closing_viewer,
      broken_viewer,
      open_viewer\<lparr>received := [''{"type":"telemetry","data":{}}'']\<rparr>] \<and>
   JSON_parse example_js ''{}'' = Inr (JObj []) \<and>
   toLowerCase (WRITE_TO_INFLUX cfg_off) \<noteq> ''true'' \<and>
   toLowerCase (WRITE_TO_INFLUX cfg_on) = ''true'' \<and>
   clients (on_message example_js list_store cfg_off ''{}'' example_server) =
     served_viewers \<and>
   clients (on_message example_js list_store cfg_on ''{}'' example_server) =
     served_viewers \<and>
   written (on_message example_js list_store cfg_off ''{}'' example_server) = [] \<and>
   writeApi (on_message example_js list_store cfg_off ''{}'' example_server) = [] \<and>
   console (on_message example_js list_store cfg_off ''{}'' example_server) = [] \<and>
   ingest_point example_js (JObj []) = Inr unknown_point \<and>
   written (on_message example_js list_store cfg_on ''{}'' example_server) = [unknown_point] \<and>
   writeApi (on_message example_js list_store cfg_on ''{}'' example_server) = [unknown_point]\<close>
proof -
  have off: "toLowerCase (WRITE_TO_INFLUX cfg_off) \<noteq> ''true''"
    by (simp add: cfg_off_def toLowerCase_false)
  have on: "toLowerCase (WRITE_TO_INFLUX cfg_on) = ''true''"
    by (simp add: cfg_on_def toLowerCase_true)
  note t_off = toggle_leaves_broadcast [OF example_parse_empty, of list_store cfg_off example_server cfg_on]
  note t_on = toggle_leaves_broadcast [OF example_parse_empty, of list_store cfg_on example_server cfg_off]
  from t_off have c_off: "clients (on_message example_js list_store cfg_off ''{}'' example_server) =
     served_viewers"
    by (simp add: example_server_def open_viewer_def closing_viewer_def broken_viewer_def
          example_js_def served_viewers_def)
  from t_off have same: "clients (on_message example_js list_store cfg_off ''{}'' example_server) =
     clients (on_message example_js list_store cfg_on ''{}'' example_server)"
    by (rule conjunct1 [OF conjunct2])
  from t_off off have w_off: "written (on_message example_js list_store cfg_off ''{}'' example_server) = written example_server \<and>
            writeApi (on_message example_js list_store cfg_off ''{}'' example_server) = writeApi example_server \<and>
            console (on_message example_js list_store cfg_off ''{}'' example_server) = console example_server"
    by (rule mp [OF conjunct1 [OF conjunct2 [OF conjunct2]]])
  from t_on on have "case ingest_point example_js (JObj []) of
               Inl e \<Rightarrow> written (on_message example_js list_store cfg_on ''{}'' example_server) = written example_server \<and>
                        writeApi (on_message example_js list_store cfg_on ''{}'' example_server) = writeApi example_server
             | Inr p \<Rightarrow> written (on_message example_js list_store cfg_on ''{}'' example_server) = written example_server @ [p] \<and>
                        writeApi (on_message example_js list_store cfg_on ''{}'' example_server) =
                          snd (writePoint list_store p (writeApi example_server))"
    by (rule mp [OF conjunct2 [OF conjunct2 [OF conjunct2]]])
  then have w_on: "written (on_message example_js list_store cfg_on ''{}'' example_server) = [unknown_point] \<and>
     writeApi (on_message example_js list_store cfg_on ''{}'' example_server) = [unknown_point]"
    by (simp add: example_unknown) (simp add: example_server_def list_store_def)
  from w_off have w_off': "written (on_message example_js list_store cfg_off ''{}'' example_server) = [] \<and>
     writeApi (on_message example_js list_store cfg_off ''{}'' example_server) = [] \<and>
     console (on_message example_js list_store cfg_off ''{}'' example_server) = []"
    by (simp add: example_server_def)
  from c_off same have c_on: "clients (on_message example_js list_store cfg_on ''{}'' example_server) =
     served_viewers"
    by simp
  show ?thesis
    using example_parse_empty off on c_off c_on w_off' w_on example_unknown [of example_js]
    by (intro conjI) (simp_all add: served_viewers_def)
qed

text \<open>
  C10. When the store answers the latest-value query with no rows, the response is 200
  with the object that holds \<^verbatim>\<open>device_id\<close> and nothing else.
\<close>

theorem latest_without_rows:
  assumes "collectRows sc (latest_flux cfg deviceId (or_default range_param ''2h'')) w = Inr []"
  shows "get_latest sc cfg deviceId range_param w =
           \<lparr>status = 200, body = JObj [(''device_id'', JStr deviceId)]\<rparr>"
  using assms by (simp add: get_latest_def)

theorem latest_without_rows_witness:
  "collectRows list_store (latest_flux cfg_on ''m365-01'' (or_default None ''2h'')) [] = Inr [] \<and>
   get_latest list_store cfg_on ''m365-01'' None [] =
     \<lparr>status = 200, body = JObj [(''device_id'', JStr ''m365-01'')]\<rparr>"
proof -
  have h: "collectRows list_store (latest_flux cfg_on ''m365-01'' (or_default None ''2h'')) [] = Inr []"
    by (simp add: list_store_def)
  show ?thesis using latest_without_rows [OF h] h by simp
qed

end
